theory Spec2Isabelle
  imports Complex_Main "HOL-Library.Char_ord" "HOL-Library.List_Lexorder"
begin

section \<open>Values, errors and the file system\<close>

text \<open>
  The backend (\<^verbatim>\<open>backend/app.py\<close>) is a Flask application whose handlers drive a proving
  pipeline over files of a per-task directory. The embedding makes its effects explicit:
  a file system of directories and regular files, the sequence of status records the
  program has written, and Python exceptions as values.
\<close>

datatype exn_kind =
  FileNotFoundError | OSError | ValueError | RuntimeError | KeyError | TypeError
  | AttributeError | IndexError | ToolkitError

datatype exn = Exn (kind: exn_kind) (msg: string)

text \<open>JSON documents, as \<^verbatim>\<open>json.load\<close> returns them and \<^verbatim>\<open>json.dump\<close> takes them.\<close>

datatype json =
  JNull | JBool bool | JNum rat | JStr string | JArr "json list" | JObj "(string \<times> json) list"

text \<open>
  A regular file holds raw bytes or the serialisation of a JSON document; \<^verbatim>\<open>json.load\<close>
  of raw bytes fails.
\<close>

datatype content = Raw "nat list" | Doc json

datatype node = Dir | File content

text \<open>
  A location is the list of names from the root; the tree maps locations to nodes. There
  are no symbolic links, and the root is always a directory.
\<close>

type_synonym loc = "string list"
type_synonym tree = "loc \<Rightarrow> node option"

definition node_at :: "tree \<Rightarrow> loc \<Rightarrow> node option" where
  "node_at t p = (if p = [] then Some Dir else t p)"

definition is_dir :: "tree \<Rightarrow> loc \<Rightarrow> bool" where
  "is_dir t p = (node_at t p = Some Dir)"


subsection \<open>Path strings\<close>

text \<open>\<^verbatim>\<open>os.path.join(a, b)\<close> of \<^verbatim>\<open>posixpath\<close>, for two arguments.\<close>

definition path_join :: "string \<Rightarrow> string \<Rightarrow> string" where
  "path_join a b =
     (if b \<noteq> [] \<and> hd b = CHR ''/'' then b
      else if a = [] \<or> last a = CHR ''/'' then a @ b
      else a @ ''/'' @ b)"

text \<open>The components of a path string, as the operating system reads them.\<close>

fun split_slash :: "string \<Rightarrow> string list" where
  "split_slash [] = [[]]"
| "split_slash (c # cs) =
     (if c = CHR ''/'' then [] # split_slash cs
      else (case split_slash cs of [] \<Rightarrow> [[c]] | w # ws \<Rightarrow> (c # w) # ws))"

text \<open>
  Path resolution: each component is looked up in the directory reached so far; the empty
  component and \<^verbatim>\<open>.\<close> stay, \<^verbatim>\<open>..\<close> goes to the parent. The walk fails when a component
  is looked up in something that is not a directory. The location it returns need not exist.
\<close>

fun walk :: "tree \<Rightarrow> loc \<Rightarrow> string list \<Rightarrow> loc option" where
  "walk t cur [] = Some cur"
| "walk t cur (c # cs) =
     (if \<not> is_dir t cur then None
      else if c = [] \<or> c = ''.'' then walk t cur cs
      else if c = ''..'' then walk t (butlast cur) cs
      else walk t (cur @ [c]) cs)"

definition is_abs :: "string \<Rightarrow> bool" where
  "is_abs p = (p \<noteq> [] \<and> hd p = CHR ''/'')"

definition resolve :: "loc \<Rightarrow> tree \<Rightarrow> string \<Rightarrow> loc option" where
  "resolve cwd t p = walk t (if is_abs p then [] else cwd) (split_slash p)"


text \<open>\<^verbatim>\<open>os.path.isfile\<close>: the path resolves to a regular file.\<close>

definition isfile :: "loc \<Rightarrow> tree \<Rightarrow> string \<Rightarrow> bool" where
  "isfile cwd t p =
     (case resolve cwd t p of
        None \<Rightarrow> False
      | Some q \<Rightarrow> (case node_at t q of Some (File c) \<Rightarrow> True | _ \<Rightarrow> False))"

text \<open>
  \<^verbatim>\<open>os.makedirs(path, exist_ok=True)\<close>: every missing directory along the path is created;
  a regular file in the way is an error, an existing directory is not. The directories
  created before an error stay.
\<close>

fun mkdirs :: "string \<Rightarrow> tree \<Rightarrow> loc \<Rightarrow> string list \<Rightarrow> (exn + unit) \<times> tree" where
  "mkdirs p t cur [] = (Inr (), t)"
| "mkdirs p t cur (c # cs) =
     (if \<not> is_dir t cur then (Inl (Exn OSError (''[Errno 20] Not a directory: '' @ p)), t)
      else if c = [] \<or> c = ''.'' then mkdirs p t cur cs
      else if c = ''..'' then mkdirs p t (butlast cur) cs
      else (case node_at t (cur @ [c]) of
              None \<Rightarrow> mkdirs p (t(cur @ [c] \<mapsto> Dir)) (cur @ [c]) cs
            | Some Dir \<Rightarrow> mkdirs p t (cur @ [c]) cs
            | Some (File d) \<Rightarrow> (Inl (Exn OSError (''[Errno 17] File exists: '' @ p)), t)))"

definition makedirs :: "loc \<Rightarrow> string \<Rightarrow> tree \<Rightarrow> (exn + unit) \<times> tree" where
  "makedirs cwd p t =
     (if p = [] then (Inl (Exn FileNotFoundError ''[Errno 2] No such file or directory: ''), t)
      else mkdirs p t (if is_abs p then [] else cwd) (split_slash p))"

text \<open>\<^verbatim>\<open>open(path).read()\<close> and \<^verbatim>\<open>open(path, "w").write(data)\<close> on the tree.\<close>

definition read_node :: "loc \<Rightarrow> tree \<Rightarrow> string \<Rightarrow> exn + content" where
  "read_node cwd t p =
     (case resolve cwd t p of
        None \<Rightarrow> Inl (Exn FileNotFoundError (''[Errno 2] No such file or directory: '' @ p))
      | Some q \<Rightarrow>
          (case node_at t q of
             None \<Rightarrow> Inl (Exn FileNotFoundError (''[Errno 2] No such file or directory: '' @ p))
           | Some Dir \<Rightarrow> Inl (Exn OSError (''[Errno 21] Is a directory: '' @ p))
           | Some (File c) \<Rightarrow> Inr c))"

definition write_node :: "loc \<Rightarrow> tree \<Rightarrow> string \<Rightarrow> content \<Rightarrow> exn + tree" where
  "write_node cwd t p c =
     (case resolve cwd t p of
        None \<Rightarrow> Inl (Exn FileNotFoundError (''[Errno 2] No such file or directory: '' @ p))
      | Some q \<Rightarrow>
          (if is_dir t q then Inl (Exn OSError (''[Errno 21] Is a directory: '' @ p))
           else Inr (t(q \<mapsto> File c))))"

section \<open>Configuration and program state\<close>

text \<open>
  The module-level settings read from the environment at import, and the working directory
  of the process. An unset variable is \<open>None\<close>; Python treats an unset and an empty
  setting alike in a condition (\<open>truthy\<close>).
\<close>

record config =
  APP_ROOT :: string
  VALIDATION_CSV :: string
  CALIBRATION_SAMPLES :: int
  GENERAL_CONTRACT_ADDRESS :: "string option"
  GENERAL_CONTRACT_ABI_PATH :: string
  WEB3_HTTP_PROVIDER :: "string option"
  WEB3_OPERATOR_KEY :: "string option"
  SOLC_VERSION :: string
  REGISTRY_FUNCTION_NAME :: string
  cwd :: loc

definition truthy :: "string option \<Rightarrow> bool" where
  "truthy v = (case v of None \<Rightarrow> False | Some s \<Rightarrow> s \<noteq> [])"

text \<open>
  The status record of \<^verbatim>\<open>update_status\<close>. The timestamp is the reading of a clock that
  ticks at every call.
\<close>

record status =
  step :: string
  message :: string
  error :: "string option"
  timestamp :: nat

definition status_doc :: "status \<Rightarrow> json" where
  "status_doc st =
     JObj [(''step'', JStr (step st)), (''message'', JStr (message st)),
           (''error'', (case error st of None \<Rightarrow> JNull | Some e \<Rightarrow> JStr e)),
           (''timestamp'', JNum (of_nat (timestamp st)))]"

text \<open>
  The state a handler runs in: the file system, the status records stored so far (oldest
  first), the clock, and the outcomes the operating system will give to the program's next
  attempts to open a file for writing (\<open>True\<close>: the attempt is refused with an I/O error;
  an exhausted list refuses nothing).
\<close>

record pstate =
  fsys :: tree
  ledger :: "status list"
  clock :: nat
  faults :: "bool list"

type_synonym 'a comp = "pstate \<Rightarrow> (exn + 'a) \<times> pstate"

definition ret :: "'a \<Rightarrow> 'a comp" where
  "ret x s = (Inr x, s)"

definition raise :: "exn \<Rightarrow> 'a comp" where
  "raise e s = (Inl e, s)"

text \<open>Sequencing: an exception ends the computation, the state reached so far stays.\<close>

definition bnd :: "'a comp \<Rightarrow> ('a \<Rightarrow> 'b comp) \<Rightarrow> 'b comp" where
  "bnd m f s = (case m s of (Inl e, s') \<Rightarrow> (Inl e, s') | (Inr x, s') \<Rightarrow> f x s')"

definition on_tree :: "(tree \<Rightarrow> (exn + 'a) \<times> tree) \<Rightarrow> 'a comp" where
  "on_tree f s = (case f (fsys s) of (r, t) \<Rightarrow> (r, s\<lparr>fsys := t\<rparr>))"

section \<open>Helpers\<close>

definition ensure_dir :: "config \<Rightarrow> string \<Rightarrow> unit comp" where
  "ensure_dir cfg path = on_tree (makedirs (cwd cfg) path)"

record artifact_paths =
  base :: string
  model :: string
  settings :: string
  calibration :: string
  compiled :: string
  srs :: string
  witness :: string
  input :: string
  pk :: string
  vk :: string
  proof_file :: string
  status_file :: string
  verifier_sol :: string
  verifier_abi :: string

definition paths_of :: "string \<Rightarrow> artifact_paths" where
  "paths_of b =
     \<lparr>base = b,
      model = path_join b ''network.onnx'',
      settings = path_join b ''settings.json'',
      calibration = path_join b ''calibration.json'',
      compiled = path_join b ''network.ezkl'',
      srs = path_join b ''kzg.srs'',
      witness = path_join b ''witness.json'',
      input = path_join b ''input.json'',
      pk = path_join b ''test.pk'',
      vk = path_join b ''test.vk'',
      proof_file = path_join b ''test.pf'',
      status_file = path_join b ''status.json'',
      verifier_sol = path_join b ''Verifier.sol'',
      verifier_abi = path_join b ''Verifier.abi''\<rparr>"

definition task_paths :: "config \<Rightarrow> string \<Rightarrow> artifact_paths comp" where
  "task_paths cfg task_id =
     (let b = path_join (APP_ROOT cfg) task_id
      in bnd (ensure_dir cfg b) (\<lambda>_. ret (paths_of b)))"

text \<open>Opening a file for writing and storing the data.\<close>

definition write_file :: "config \<Rightarrow> string \<Rightarrow> content \<Rightarrow> unit comp" where
  "write_file cfg path c s =
     (let s1 = s\<lparr>faults := tl (faults s)\<rparr>
      in if faults s \<noteq> [] \<and> hd (faults s)
         then (Inl (Exn OSError (''[Errno 5] Input/output error: '' @ path)), s1)
         else (case write_node (cwd cfg) (fsys s1) path c of
                 Inl e \<Rightarrow> (Inl e, s1)
               | Inr t \<Rightarrow> (Inr (), s1\<lparr>fsys := t\<rparr>)))"

definition read_file :: "config \<Rightarrow> string \<Rightarrow> content comp" where
  "read_file cfg path s = (read_node (cwd cfg) (fsys s) path, s)"

definition load_json :: "config \<Rightarrow> string \<Rightarrow> json comp" where
  "load_json cfg path =
     bnd (read_file cfg path)
       (\<lambda>c. case c of
               Doc j \<Rightarrow> ret j
             | Raw bs \<Rightarrow> raise (Exn ValueError ''Expecting value: line 1 column 1 (char 0)''))"

definition save_json :: "config \<Rightarrow> string \<Rightarrow> json \<Rightarrow> unit comp" where
  "save_json cfg path payload = write_file cfg path (Doc payload)"

definition update_status ::
  "config \<Rightarrow> artifact_paths \<Rightarrow> string \<Rightarrow> string \<Rightarrow> string option \<Rightarrow> unit comp" where
  "update_status cfg paths stp txt err s =
     (let st = \<lparr>step = stp, message = txt, error = err, timestamp = clock s\<rparr>;
          s1 = s\<lparr>clock := Suc (clock s)\<rparr>
      in (case save_json cfg (status_file paths) (status_doc st) s1 of
            (Inl e, s2) \<Rightarrow> (Inl e, s2)
          | (Inr u, s2) \<Rightarrow> (Inr (), s2\<lparr>ledger := ledger s2 @ [st]\<rparr>)))"

definition lift_res :: "exn + 'a \<Rightarrow> 'a comp" where
  "lift_res r s = (r, s)"

definition call :: "config \<Rightarrow> (loc \<Rightarrow> tree \<Rightarrow> (exn + 'a) \<times> tree) \<Rightarrow> 'a comp" where
  "call cfg f = on_tree (f (cwd cfg))"

fun map_res :: "('a \<Rightarrow> exn + 'b) \<Rightarrow> 'a list \<Rightarrow> exn + 'b list" where
  "map_res f [] = Inr []"
| "map_res f (x # xs) =
     (case f x of
        Inl e \<Rightarrow> Inl e
      | Inr y \<Rightarrow> (case map_res f xs of Inl e \<Rightarrow> Inl e | Inr ys \<Rightarrow> Inr (y # ys)))"

subsection \<open>Python values read from JSON\<close>

text \<open>\<^verbatim>\<open>d.get(k)\<close> on a dictionary read by \<^verbatim>\<open>json.load\<close>: of a repeated key the last entry counts.\<close>

definition dict_get :: "(string \<times> json) list \<Rightarrow> string \<Rightarrow> json option" where
  "dict_get kvs k = map_of (rev kvs) k"

text \<open>The truth value of a value in a condition.\<close>

fun py_bool :: "json \<Rightarrow> bool" where
  "py_bool JNull = False"
| "py_bool (JBool b) = b"
| "py_bool (JNum r) = (r \<noteq> 0)"
| "py_bool (JStr s) = (s \<noteq> [])"
| "py_bool (JArr xs) = (xs \<noteq> [])"
| "py_bool (JObj kvs) = (kvs \<noteq> [])"

text \<open>A text between single quotes, as the interpreter writes names in its messages.\<close>

definition quoted :: "string \<Rightarrow> string" where
  "quoted x = [CHR 0x27] @ x @ [CHR 0x27]"

definition no_attribute :: "string \<Rightarrow> string \<Rightarrow> exn" where
  "no_attribute ty a = Exn AttributeError (quoted ty @ '' object has no attribute '' @ quoted a)"

text \<open>\<^verbatim>\<open>v.get(k, default)\<close>: only a dictionary has the method.\<close>

fun py_get :: "json \<Rightarrow> string \<Rightarrow> json \<Rightarrow> exn + json" where
  "py_get (JObj kvs) k dflt = Inr (case dict_get kvs k of None \<Rightarrow> dflt | Some v \<Rightarrow> v)"
| "py_get JNull k dflt = Inl (no_attribute ''NoneType'' ''get'')"
| "py_get (JBool b) k dflt = Inl (no_attribute ''bool'' ''get'')"
| "py_get (JNum r) k dflt = Inl (no_attribute ''float'' ''get'')"
| "py_get (JStr s) k dflt = Inl (no_attribute ''str'' ''get'')"
| "py_get (JArr xs) k dflt = Inl (no_attribute ''list'' ''get'')"

text \<open>\<^verbatim>\<open>v[k]\<close> for a string key; the text of a \<^verbatim>\<open>KeyError\<close> is the quoted key.\<close>

fun py_item :: "json \<Rightarrow> string \<Rightarrow> exn + json" where
  "py_item (JObj kvs) k =
     (case dict_get kvs k of None \<Rightarrow> Inl (Exn KeyError (quoted k)) | Some v \<Rightarrow> Inr v)"
| "py_item (JArr xs) k = Inl (Exn TypeError ''list indices must be integers or slices, not str'')"
| "py_item (JStr s) k = Inl (Exn TypeError ''string indices must be integers, not str'')"
| "py_item v k = Inl (Exn TypeError ''object is not subscriptable'')"

text \<open>\<^verbatim>\<open>v[0]\<close>.\<close>

fun py_first :: "json \<Rightarrow> exn + json" where
  "py_first (JArr xs) =
     (case xs of [] \<Rightarrow> Inl (Exn IndexError ''list index out of range'') | x # r \<Rightarrow> Inr x)"
| "py_first (JStr s) =
     (case s of [] \<Rightarrow> Inl (Exn IndexError ''string index out of range'') | c # r \<Rightarrow> Inr (JStr [c]))"
| "py_first (JObj kvs) = Inl (Exn KeyError ''0'')"
| "py_first v = Inl (Exn TypeError ''object is not subscriptable'')"

text \<open>The elements a \<^verbatim>\<open>for\<close> loop visits.\<close>

fun py_iter :: "json \<Rightarrow> exn + json list" where
  "py_iter (JArr xs) = Inr xs"
| "py_iter (JStr s) = Inr (map (\<lambda>c. JStr [c]) s)"
| "py_iter (JObj kvs) = Inr (map JStr (remdups (map fst kvs)))"
| "py_iter v = Inl (Exn TypeError ''object is not iterable'')"

text \<open>
  Python floats are taken as rationals: the values of the claims (\<open>0.0\<close>, \<open>1.0\<close>, and their
  products with one million) are exact in both. \<^verbatim>\<open>float(x)\<close> of a string asks the parser
  \<open>pf\<close>.
\<close>

fun py_float :: "(string \<Rightarrow> rat option) \<Rightarrow> json \<Rightarrow> exn + rat" where
  "py_float pf (JNum r) = Inr r"
| "py_float pf (JBool b) = Inr (if b then 1 else 0)"
| "py_float pf (JStr s) =
     (case pf s of
        None \<Rightarrow> Inl (Exn ValueError (''could not convert string to float: '' @ s))
      | Some r \<Rightarrow> Inr r)"
| "py_float pf v = Inl (Exn TypeError ''float() argument must be a string or a real number'')"

text \<open>\<^verbatim>\<open>round(x)\<close>: to the nearest integer, a tie to the even one.\<close>

definition py_round :: "rat \<Rightarrow> int" where
  "py_round x =
     (let f = \<lfloor>x\<rfloor>; d = x - of_int f
      in if d < 1 / 2 then f else if 1 / 2 < d then f + 1 else if even f then f else f + 1)"

text \<open>\<^verbatim>\<open>numpy.argmax\<close> of a non-empty list: the first position of the greatest value.\<close>

fun argmax_from :: "nat \<Rightarrow> rat \<Rightarrow> nat \<Rightarrow> rat list \<Rightarrow> nat" where
  "argmax_from bi bv i [] = bi"
| "argmax_from bi bv i (x # xs) =
     (if bv < x then argmax_from i x (Suc i) xs else argmax_from bi bv (Suc i) xs)"

definition argmax :: "rat list \<Rightarrow> exn + nat" where
  "argmax xs =
     (case xs of
        [] \<Rightarrow> Inl (Exn ValueError ''attempt to get argmax of an empty sequence'')
      | x # r \<Rightarrow> Inr (argmax_from 0 x 1 r))"

fun is_prefix :: "string \<Rightarrow> string \<Rightarrow> bool" where
  "is_prefix [] s = True"
| "is_prefix (c # cs) [] = False"
| "is_prefix (c # cs) (d # ds) = (c = d \<and> is_prefix cs ds)"

text \<open>\<^verbatim>\<open>sub in s\<close> for strings.\<close>

fun contains :: "string \<Rightarrow> string \<Rightarrow> bool" where
  "contains sub [] = (sub = [])"
| "contains sub (d # ds) = (is_prefix sub (d # ds) \<or> contains sub ds)"

text \<open>\<^verbatim>\<open>sep.join(xs)\<close>.\<close>

fun join_with :: "string \<Rightarrow> string list \<Rightarrow> string" where
  "join_with sep [] = []"
| "join_with sep [x] = x"
| "join_with sep (x # y # ys) = x @ sep @ join_with sep (y # ys)"

text \<open>\<^verbatim>\<open>os.path.basename\<close>: what follows the last slash.\<close>

definition basename :: "string \<Rightarrow> string" where
  "basename p = last (split_slash p)"

section \<open>External collaborators\<close>

text \<open>
  The validation frame as \<^verbatim>\<open>pandas\<close> reads it: the number of columns and the rows, each
  with its features (all columns but the last) and its label (the last column).
\<close>

record dataframe =
  ncols :: nat
  rows :: "(rat list \<times> string) list"

record receipt =
  rstatus :: int
  contractAddress :: "string option"
  transactionHash :: string

text \<open>
  A signed transaction of \<^verbatim>\<open>web3\<close>: version 5 names its payload \<^verbatim>\<open>rawTransaction\<close>,
  version 7 \<^verbatim>\<open>raw_transaction\<close>.
\<close>

datatype signed_txn = SignedV5 "nat list" | SignedV7 "nat list" | SignedBare

text \<open>
  The libraries the program calls, whose code is not part of it: the proving toolkit
  (\<^verbatim>\<open>ezkl\<close>), \<^verbatim>\<open>pandas\<close>, the Solidity compiler and \<^verbatim>\<open>web3\<close>. An operation of the
  toolkit works on files: it is given the working directory and the tree, and returns its
  result or its exception together with the tree it leaves.
\<close>

type_synonym 'a extern = "loc \<Rightarrow> tree \<Rightarrow> (exn + 'a) \<times> tree"

record toolkit =
  read_csv :: "content \<Rightarrow> exn + dataframe"
  random_row :: "nat \<Rightarrow> nat"
  sample_rows :: "nat \<Rightarrow> rat list list \<Rightarrow> rat list list"
  parse_float :: "string \<Rightarrow> rat option"
  gen_settings :: "string \<Rightarrow> string \<Rightarrow> unit extern"
  calibrate_settings :: "string \<Rightarrow> string \<Rightarrow> string \<Rightarrow> unit extern"
  compile_circuit :: "string \<Rightarrow> string \<Rightarrow> string \<Rightarrow> unit extern"
  get_srs :: "string \<Rightarrow> string \<Rightarrow> unit extern"
  gen_witness :: "string \<Rightarrow> string \<Rightarrow> string \<Rightarrow> unit extern"
  ezkl_setup :: "string \<Rightarrow> string \<Rightarrow> string \<Rightarrow> unit extern"
  prove :: "string \<Rightarrow> string \<Rightarrow> string \<Rightarrow> string \<Rightarrow> json extern"
  verify :: "string \<Rightarrow> string \<Rightarrow> string \<Rightarrow> json extern"
  create_evm_verifier :: "string \<Rightarrow> string \<Rightarrow> string \<Rightarrow> string \<Rightarrow> string \<Rightarrow> unit extern"
  felt_to_big_endian :: "json \<Rightarrow> exn + string"
  get_installed_solc_versions :: "string list"
  install_solc :: "string \<Rightarrow> exn + unit"
  compile_standard :: "string \<Rightarrow> content \<Rightarrow> string \<Rightarrow> exn + (string \<times> string) list option"
  account_from_key :: "string \<Rightarrow> string \<Rightarrow> exn + string"
  to_checksum_address :: "string \<Rightarrow> exn + string"
  sign_deployment :: "string \<Rightarrow> string \<Rightarrow> json \<Rightarrow> string \<Rightarrow> exn + signed_txn"
  get_function_by_name :: "json \<Rightarrow> string \<Rightarrow> bool"
  sign_registration ::
    "string \<Rightarrow> string \<Rightarrow> string \<Rightarrow> json \<Rightarrow> string \<Rightarrow> string \<Rightarrow> nat list \<Rightarrow> string \<Rightarrow> nat list \<Rightarrow> int
       \<Rightarrow> exn + signed_txn"
  send_and_wait :: "string \<Rightarrow> nat list \<Rightarrow> exn + receipt"
  sha256 :: "content \<Rightarrow> nat list"
  hex_bytes :: "json \<Rightarrow> nat list option"
  dumps_bytes :: "json \<Rightarrow> nat list"

section \<open>Validation data and prediction\<close>

definition load_validation_dataframe :: "config \<Rightarrow> toolkit \<Rightarrow> dataframe comp" where
  "load_validation_dataframe cfg tk =
     (\<lambda>s. if \<not> isfile (cwd cfg) (fsys s) (VALIDATION_CSV cfg)
          then raise (Exn FileNotFoundError
                 (''Validation CSV not found at '' @ VALIDATION_CSV cfg
                    @ ''. Generate it via the notebook first.'')) s
          else bnd (read_file cfg (VALIDATION_CSV cfg))
                 (\<lambda>c. bnd (lift_res (read_csv tk c))
                   (\<lambda>df. if ncols df < 2
                         then raise (Exn ValueError
                                ''Validation CSV must contain at least one feature column and one label column'')
                         else ret df)) s)"

definition pick_validation_sample :: "toolkit \<Rightarrow> dataframe \<Rightarrow> (rat list \<times> string) comp" where
  "pick_validation_sample tk df =
     (if rows df = []
      then raise (Exn ValueError ''a must be greater than 0 unless no samples are taken'')
      else ret (rows df ! (random_row tk (length (rows df)) mod length (rows df))))"

definition build_label_index_map :: "dataframe \<Rightarrow> string \<Rightarrow> nat option" where
  "build_label_index_map df =
     (let labels = sort (remdups (map snd (rows df)))
      in map_of (zip labels [0..<length labels]))"

record prediction =
  scores :: "rat list"
  predicted_index :: "nat option"

definition extract_prediction :: "config \<Rightarrow> toolkit \<Rightarrow> string \<Rightarrow> prediction comp" where
  "extract_prediction cfg tk witness_path =
     bnd (load_json cfg witness_path)
       (\<lambda>payload. bnd (lift_res (py_get payload ''pretty_elements'' (JObj [])))
         (\<lambda>pretty. bnd (lift_res (py_get pretty ''rescaled_outputs'' JNull))
           (\<lambda>outputs.
              if \<not> py_bool outputs then ret \<lparr>scores = [], predicted_index = None\<rparr>
              else bnd (lift_res (py_first outputs))
                     (\<lambda>row. bnd (lift_res (py_iter row))
                       (\<lambda>xs. bnd (lift_res (map_res (py_float (parse_float tk)) xs))
                         (\<lambda>scs. bnd (lift_res (argmax scs))
                           (\<lambda>i. ret \<lparr>scores = scs, predicted_index = Some i\<rparr>)))))))"

text \<open>
  The accuracy of a run (lines 368 to 371 of \<^verbatim>\<open>run_pipeline_async\<close>): set only when both
  indices are.
\<close>

definition accuracy_of :: "nat option \<Rightarrow> nat option \<Rightarrow> rat option" where
  "accuracy_of target_index pred_index =
     (case (target_index, pred_index) of
        (Some t, Some p) \<Rightarrow> Some (if p = t then 1 else 0)
      | _ \<Rightarrow> None)"

text \<open>Line 253 of \<^verbatim>\<open>register_model_onchain\<close>: \<^verbatim>\<open>int(round((accuracy or 0.0) * 1_000_000))\<close>.\<close>

definition accuracy_scaled :: "rat option \<Rightarrow> int" where
  "accuracy_scaled acc =
     py_round ((case acc of None \<Rightarrow> 0 | Some a \<Rightarrow> if a = 0 then 0 else a) * 1000000)"

definition format_pub_inputs :: "toolkit \<Rightarrow> json \<Rightarrow> (string list \<times> string) comp" where
  "format_pub_inputs tk proof_payload =
     bnd (lift_res (py_item proof_payload ''instances''))
       (\<lambda>instances. bnd (lift_res (py_iter instances))
         (\<lambda>insts. bnd (lift_res (map_res py_iter insts))
           (\<lambda>felts. bnd (lift_res (map_res (felt_to_big_endian tk) (concat felts)))
             (\<lambda>formatted.
                ret (formatted,
                     ''['' @ join_with '', '' (map (\<lambda>v. [CHR 0x22] @ v @ [CHR 0x22]) formatted)
                       @ '']'')))))"

section \<open>Chain transactions\<close>

text \<open>
  Both chain functions test whether \<^verbatim>\<open>Web3\<close> is \<^verbatim>\<open>None\<close>; the import at the head of the
  module binds the name, so the test never holds and has no branch here.
\<close>

definition str_of :: "string option \<Rightarrow> string" where
  "str_of v = (case v of None \<Rightarrow> [] | Some x \<Rightarrow> x)"

definition ensure_solc :: "toolkit \<Rightarrow> string \<Rightarrow> unit comp" where
  "ensure_solc tk solc_version =
     (if solc_version \<notin> set (get_installed_solc_versions tk)
      then lift_res (install_solc tk solc_version) else ret ())"

definition raw_transaction_bytes :: "signed_txn \<Rightarrow> exn + nat list" where
  "raw_transaction_bytes signed_tx =
     (case signed_tx of
        SignedV5 raw \<Rightarrow> Inr raw
      | SignedV7 raw \<Rightarrow> Inr raw
      | SignedBare \<Rightarrow> Inl (Exn AttributeError ''SignedTransaction missing raw transaction payload''))"

definition compile_verifier_bytecode :: "config \<Rightarrow> toolkit \<Rightarrow> string \<Rightarrow> string \<Rightarrow> string comp" where
  "compile_verifier_bytecode cfg tk sol_path solc_version =
     (\<lambda>s. if \<not> isfile (cwd cfg) (fsys s) sol_path
          then raise (Exn FileNotFoundError (''Verifier source not found at '' @ sol_path)) s
          else bnd (ensure_solc tk solc_version)
                 (\<lambda>_. bnd (read_file cfg sol_path)
                   (\<lambda>source. bnd (lift_res (compile_standard tk (basename sol_path) source solc_version))
                     (\<lambda>contract_map.
                        case contract_map of
                          None \<Rightarrow> raise (Exn RuntimeError ''Compilation output missing contract data'')
                        | Some [] \<Rightarrow> raise (Exn RuntimeError ''Compilation output missing contract data'')
                        | Some ((contract_name, bytecode) # others) \<Rightarrow>
                            if bytecode = [] then raise (Exn RuntimeError ''Verifier bytecode is empty'')
                            else ret bytecode))) s)"

record deployment =
  address :: "string option"
  deploy_tx_hash :: string

definition deploy_verifier_contract :: "config \<Rightarrow> toolkit \<Rightarrow> string \<Rightarrow> deployment option comp" where
  "deploy_verifier_contract cfg tk task_id =
     (if \<not> (truthy (WEB3_HTTP_PROVIDER cfg) \<and> truthy (WEB3_OPERATOR_KEY cfg)) then ret None
      else bnd (task_paths cfg task_id)
        (\<lambda>paths s.
           if \<not> isfile (cwd cfg) (fsys s) (verifier_sol paths)
           then raise (Exn FileNotFoundError
                  (''Verifier source not found at '' @ verifier_sol paths)) s
           else if \<not> isfile (cwd cfg) (fsys s) (verifier_abi paths)
           then raise (Exn FileNotFoundError (''Verifier ABI not found at '' @ verifier_abi paths)) s
           else bnd (compile_verifier_bytecode cfg tk (verifier_sol paths) (SOLC_VERSION cfg))
             (\<lambda>bytecode. bnd (load_json cfg (verifier_abi paths))
               (\<lambda>abi. bnd (lift_res (account_from_key tk (str_of (WEB3_HTTP_PROVIDER cfg))
                                        (str_of (WEB3_OPERATOR_KEY cfg))))
                 (\<lambda>account. bnd (lift_res (sign_deployment tk (str_of (WEB3_HTTP_PROVIDER cfg))
                                            (str_of (WEB3_OPERATOR_KEY cfg)) abi bytecode))
                   (\<lambda>signed. bnd (lift_res (raw_transaction_bytes signed))
                     (\<lambda>raw. bnd (lift_res (send_and_wait tk (str_of (WEB3_HTTP_PROVIDER cfg)) raw))
                       (\<lambda>rc. if rstatus rc \<noteq> 1
                             then raise (Exn RuntimeError ''Verifier deployment failed'')
                             else ret (Some \<lparr>address = contractAddress rc,
                                             deploy_tx_hash = transactionHash rc\<rparr>))))))) s))"

definition register_model_onchain ::
  "config \<Rightarrow> toolkit \<Rightarrow> string \<Rightarrow> string \<Rightarrow> json \<Rightarrow> string option \<Rightarrow> rat option
     \<Rightarrow> string option comp" where
  "register_model_onchain cfg tk task_id model_path proof_payload verifier_address acc =
     (if \<not> (truthy (GENERAL_CONTRACT_ADDRESS cfg) \<and> truthy (WEB3_HTTP_PROVIDER cfg)
             \<and> truthy (WEB3_OPERATOR_KEY cfg) \<and> truthy verifier_address) then ret None
      else bnd (lift_res (account_from_key tk (str_of (WEB3_HTTP_PROVIDER cfg))
                            (str_of (WEB3_OPERATOR_KEY cfg))))
        (\<lambda>account s.
           if \<not> isfile (cwd cfg) (fsys s) (GENERAL_CONTRACT_ABI_PATH cfg)
           then raise (Exn FileNotFoundError
                  (''Contract ABI not found at '' @ GENERAL_CONTRACT_ABI_PATH cfg)) s
           else bnd (load_json cfg (GENERAL_CONTRACT_ABI_PATH cfg))
             (\<lambda>abi. bnd (lift_res (to_checksum_address tk (str_of (GENERAL_CONTRACT_ADDRESS cfg))))
               (\<lambda>registry. bnd (read_file cfg model_path)
                 (\<lambda>model_bytes. bnd (lift_res (py_get proof_payload ''proof'' JNull))
                   (\<lambda>proof_field.
                      if proof_field = JNull
                      then raise (Exn ValueError (''Proof payload missing '' @ quoted ''proof'' @ '' field''))
                      else if \<not> get_function_by_name tk abi (REGISTRY_FUNCTION_NAME cfg)
                      then raise (Exn RuntimeError
                             (''Function '' @ quoted (REGISTRY_FUNCTION_NAME cfg)
                                @ '' not found in registry ABI''))
                      else bnd (lift_res (to_checksum_address tk (str_of verifier_address)))
                        (\<lambda>verifier.
                           bnd (lift_res (sign_registration tk (str_of (WEB3_HTTP_PROVIDER cfg))
                                  (str_of (WEB3_OPERATOR_KEY cfg)) registry abi
                                  (REGISTRY_FUNCTION_NAME cfg) task_id (sha256 tk model_bytes)
                                  verifier
                                  (case hex_bytes tk proof_field of
                                     Some bs \<Rightarrow> bs
                                   | None \<Rightarrow> dumps_bytes tk proof_field)
                                  (accuracy_scaled acc)))
                             (\<lambda>signed. bnd (lift_res (raw_transaction_bytes signed))
                               (\<lambda>raw. bnd (lift_res (send_and_wait tk
                                                      (str_of (WEB3_HTTP_PROVIDER cfg)) raw))
                                 (\<lambda>rc. if rstatus rc \<noteq> 1
                                       then raise (Exn RuntimeError ''Contract transaction failed'')
                                       else ret (Some (transactionHash rc)))))))))) s))"

section \<open>The pipeline\<close>

record pipeline_result =
  result_task_id :: string
  artifacts :: artifact_paths
  pub_inputs_pretty :: string
  pub_inputs :: "string list"
  result_prediction :: prediction
  verification :: json
  accuracy :: "rat option"
  verifier_contract :: "string option"
  verifier_deploy_tx :: "string option"
  tx_hash :: "string option"

text \<open>
  Lines 357 to 393 of \<^verbatim>\<open>run_pipeline_async\<close>: deployment, prediction, registration and
  the summary.
\<close>

definition chain_stages ::
  "config \<Rightarrow> toolkit \<Rightarrow> string \<Rightarrow> artifact_paths \<Rightarrow> json \<Rightarrow> json \<Rightarrow> nat option
     \<Rightarrow> pipeline_result comp" where
  "chain_stages cfg tk task_id paths proof_payload verification_result target_index =
     bnd (if truthy (WEB3_HTTP_PROVIDER cfg) \<and> truthy (WEB3_OPERATOR_KEY cfg)
          then bnd (update_status cfg paths ''verifier_deploy'' ''Deploying verifier contract'' None)
                 (\<lambda>_. bnd (deploy_verifier_contract cfg tk task_id)
                   (\<lambda>dep. ret (case dep of
                                None \<Rightarrow> (None, None)
                              | Some d \<Rightarrow> (address d, Some (deploy_tx_hash d)))))
          else ret (None, None))
       (\<lambda>(verifier_address, deploy_tx).
          bnd (format_pub_inputs tk proof_payload)
            (\<lambda>(formatted, pretty). bnd (extract_prediction cfg tk (witness paths))
              (\<lambda>pred.
                 let acc = accuracy_of target_index (predicted_index pred)
                 in bnd (if truthy verifier_address
                         then bnd (update_status cfg paths ''register''
                                     ''Registering model on-chain'' None)
                                (\<lambda>_. register_model_onchain cfg tk task_id (model paths)
                                       proof_payload verifier_address acc)
                         else bnd (update_status cfg paths ''register''
                                     ''Skipping on-chain registration (no verifier deployment)'' None)
                                (\<lambda>_. ret None))
                      (\<lambda>reg_tx. bnd (update_status cfg paths ''complete'' ''Pipeline finished'' None)
                        (\<lambda>_. ret \<lparr>result_task_id = task_id,
                                   artifacts = paths,
                                   pub_inputs_pretty = pretty,
                                   pub_inputs = formatted,
                                   result_prediction = pred,
                                   verification = verification_result,
                                   accuracy = acc,
                                   verifier_contract = verifier_address,
                                   verifier_deploy_tx = deploy_tx,
                                   tx_hash = reg_tx\<rparr>)))))"

text \<open>Lines 291 to 355, then the stages above.\<close>

definition run_pipeline_async :: "config \<Rightarrow> toolkit \<Rightarrow> string \<Rightarrow> content \<Rightarrow> pipeline_result comp" where
  "run_pipeline_async cfg tk task_id model_stream =
     bnd (task_paths cfg task_id)
     (\<lambda>paths. bnd (update_status cfg paths ''started'' ''Storing model'' None)
     (\<lambda>_. bnd (write_file cfg (model paths) model_stream)
     (\<lambda>_. bnd (update_status cfg paths ''input'' ''Preparing validation input'' None)
     (\<lambda>_. bnd (load_validation_dataframe cfg tk)
     (\<lambda>validation_df. bnd (pick_validation_sample tk validation_df)
     (\<lambda>(input_vector, target_label).
        bnd (save_json cfg (input paths)
               (JObj [(''input_data'', JArr [JArr (map JNum input_vector)]),
                      (''label'', JStr target_label)]))
     (\<lambda>_. bnd (update_status cfg paths ''settings'' ''Generating settings'' None)
     (\<lambda>_. bnd (call cfg (gen_settings tk (model paths) (settings paths)))
     (\<lambda>_. bnd (update_status cfg paths ''calibration'' ''Building calibration set'' None)
     (\<lambda>_. bnd (if min (CALIBRATION_SAMPLES cfg) (int (length (rows validation_df))) < 0
               then raise (Exn ValueError
                      ''A negative number of rows requested. Please provide `n` >= 0.'')
               else ret (sample_rows tk
                      (nat (min (CALIBRATION_SAMPLES cfg) (int (length (rows validation_df)))))
                      (map fst (rows validation_df))))
     (\<lambda>cal_vectors.
        bnd (save_json cfg (calibration paths)
               (JObj [(''input_data'', JArr (map (\<lambda>v. JArr (map JNum v)) cal_vectors))]))
     (\<lambda>_. bnd (update_status cfg paths ''calibration'' ''Running ezkl.calibrate_settings'' None)
     (\<lambda>_. bnd (call cfg (calibrate_settings tk (calibration paths) (model paths) (settings paths)))
     (\<lambda>_. bnd (update_status cfg paths ''compile'' ''Compiling circuit'' None)
     (\<lambda>_. bnd (call cfg (compile_circuit tk (model paths) (compiled paths) (settings paths)))
     (\<lambda>_. bnd (update_status cfg paths ''srs'' ''Fetching SRS'' None)
     (\<lambda>_. bnd (call cfg (get_srs tk (settings paths) (srs paths)))
     (\<lambda>_. bnd (update_status cfg paths ''witness'' ''Generating witness'' None)
     (\<lambda>_. bnd (call cfg (gen_witness tk (input paths) (compiled paths) (witness paths)))
     (\<lambda>_. bnd (update_status cfg paths ''setup'' ''Running setup'' None)
     (\<lambda>_. bnd (call cfg (ezkl_setup tk (compiled paths) (vk paths) (pk paths)))
     (\<lambda>_. bnd (update_status cfg paths ''prove'' ''Generating proof'' None)
     (\<lambda>_. bnd (call cfg (prove tk (witness paths) (compiled paths) (pk paths) (proof_file paths)))
     (\<lambda>proved. bnd (case proved of JObj kvs \<Rightarrow> ret proved | _ \<Rightarrow> load_json cfg (proof_file paths))
     (\<lambda>proof_payload. bnd (update_status cfg paths ''verify'' ''Verifying proof'' None)
     (\<lambda>_. bnd (call cfg (verify tk (proof_file paths) (settings paths) (vk paths)))
     (\<lambda>verification_result. bnd (update_status cfg paths ''verifier'' ''Exporting EVM verifier'' None)
     (\<lambda>_. bnd (call cfg (create_evm_verifier tk (vk paths) (srs paths) (settings paths)
                           (verifier_sol paths) (verifier_abi paths)))
     (\<lambda>_. chain_stages cfg tk task_id paths proof_payload verification_result
            (build_label_index_map validation_df target_label)
     )))))))))))))))))))))))))))))"

text \<open>
  The synchronous wrapper. \<^verbatim>\<open>asyncio.run\<close> drives the coroutine to its end. A
  \<^verbatim>\<open>RuntimeError\<close> whose text mentions \<^verbatim>\<open>asyncio.run()\<close> sends the wrapper to an event
  loop with the same coroutine, which has ended by then: the loop raises without running
  any stage again.
\<close>

definition surfaced :: "exn \<Rightarrow> exn" where
  "surfaced exc =
     (if kind exc = RuntimeError \<and> contains ''asyncio.run()'' (msg exc)
      then Exn RuntimeError ''cannot reuse already awaited coroutine'' else exc)"

definition run_pipeline :: "config \<Rightarrow> toolkit \<Rightarrow> string \<Rightarrow> content \<Rightarrow> pipeline_result comp" where
  "run_pipeline cfg tk task_id model_stream s =
     (case run_pipeline_async cfg tk task_id model_stream s of
        (Inr res, s1) \<Rightarrow> (Inr res, s1)
      | (Inl exc, s1) \<Rightarrow> (Inl (surfaced exc), s1))"

section \<open>Routes\<close>

text \<open>What a handler hands to Flask: a status code and a body.\<close>

datatype body = JsonBody json | OctetBody content | ResultBody pipeline_result

datatype response = Response nat body

definition post_model :: "config \<Rightarrow> toolkit \<Rightarrow> string option \<Rightarrow> content option \<Rightarrow> response comp" where
  "post_model cfg tk form_task_id model_file =
     (if \<not> truthy form_task_id
      then ret (Response 400 (JsonBody (JObj [(''error'', JStr ''task_id is required'')])))
      else (case model_file of
              None \<Rightarrow>
                ret (Response 400 (JsonBody (JObj [(''error'', JStr ''model (ONNX) file is required'')])))
            | Some stream \<Rightarrow>
                (\<lambda>s. case run_pipeline cfg tk (str_of form_task_id) stream s of
                       (Inr res, s1) \<Rightarrow> (Inr (Response 201 (ResultBody res)), s1)
                     | (Inl exc, s1) \<Rightarrow>
                         bnd (task_paths cfg (str_of form_task_id))
                           (\<lambda>paths. bnd (update_status cfg paths ''failed'' ''Pipeline error''
                                          (Some (msg exc)))
                             (\<lambda>_. ret (Response 500
                                         (JsonBody (JObj [(''error'', JStr (msg exc))]))))) s1)))"

definition get_status :: "config \<Rightarrow> string \<Rightarrow> response comp" where
  "get_status cfg task_id =
     bnd (task_paths cfg task_id)
       (\<lambda>paths s.
          if \<not> isfile (cwd cfg) (fsys s) (status_file paths)
          then ret (Response 404 (JsonBody (JObj [(''error'', JStr ''unknown task id'')]))) s
          else bnd (load_json cfg (status_file paths))
                 (\<lambda>st. ret (Response 200 (JsonBody st))) s)"


section \<open>What an observer sees\<close>

text \<open>A tree that differs from another only by new directories.\<close>

definition adds_dirs :: "tree \<Rightarrow> tree \<Rightarrow> bool" where
  "adds_dirs t t' = (\<forall>q. t' q = t q \<or> (t q = None \<and> t' q = Some Dir))"

text \<open>The stage, message and error of the status records stored so far.\<close>

type_synonym entry = "string \<times> string \<times> string option"

definition entries :: "pstate \<Rightarrow> entry list" where
  "entries s = map (\<lambda>st. (step st, message st, error st)) (ledger s)"

text \<open>A computation that stores no status record.\<close>

definition silent :: "'a comp \<Rightarrow> bool" where
  "silent m = (\<forall>s r s'. m s = (r, s') \<longrightarrow> ledger s' = ledger s)"

text \<open>
  The records of a run that goes through, in their order: those of lines 292 to 348, then
  those of the chain stages, where \<open>deployed\<close> says whether a verifier address was obtained.
\<close>

definition front_entries :: "entry list" where
  "front_entries =
     [(''started'', ''Storing model'', None),
      (''input'', ''Preparing validation input'', None),
      (''settings'', ''Generating settings'', None),
      (''calibration'', ''Building calibration set'', None),
      (''calibration'', ''Running ezkl.calibrate_settings'', None),
      (''compile'', ''Compiling circuit'', None),
      (''srs'', ''Fetching SRS'', None),
      (''witness'', ''Generating witness'', None),
      (''setup'', ''Running setup'', None),
      (''prove'', ''Generating proof'', None),
      (''verify'', ''Verifying proof'', None),
      (''verifier'', ''Exporting EVM verifier'', None)]"

definition chain_on :: "config \<Rightarrow> bool" where
  "chain_on cfg = (truthy (WEB3_HTTP_PROVIDER cfg) \<and> truthy (WEB3_OPERATOR_KEY cfg))"

definition deploy_entries :: "config \<Rightarrow> entry list" where
  "deploy_entries cfg =
     (if chain_on cfg then [(''verifier_deploy'', ''Deploying verifier contract'', None)] else [])"

definition register_entry :: "bool \<Rightarrow> entry" where
  "register_entry deployed =
     (''register'',
      (if deployed then ''Registering model on-chain''
       else ''Skipping on-chain registration (no verifier deployment)''), None)"

definition tail_entries :: "config \<Rightarrow> bool \<Rightarrow> entry list" where
  "tail_entries cfg deployed =
     deploy_entries cfg @ [register_entry deployed, (''complete'', ''Pipeline finished'', None)]"

definition run_entries :: "config \<Rightarrow> bool \<Rightarrow> entry list" where
  "run_entries cfg deployed = front_entries @ tail_entries cfg deployed"

text \<open>
  A computation that stores the records \<open>L\<close> and then goes on as one of the computations
  \<open>T\<close>, unless it fails on the way.
\<close>

definition leads_to :: "'a comp \<Rightarrow> entry list \<Rightarrow> 'a comp set \<Rightarrow> bool" where
  "leads_to m L T =
     (\<forall>s r s'. m s = (r, s') \<longrightarrow>
        (\<exists>e k. r = Inl e \<and> k \<le> length L \<and> entries s' = entries s @ take k L)
        \<or> (\<exists>c sm. c \<in> T \<and> entries sm = entries s @ L \<and> c sm = (r, s')))"


section \<open>A concrete installation\<close>

text \<open>
  An installation to run the program on: the artifacts root \<^verbatim>\<open>/srv/artifacts\<close>, the
  working directory \<^verbatim>\<open>/srv\<close> with the validation file, and a task \<^verbatim>\<open>t2\<close> that holds
  one file. \<open>cfg_off\<close> has no chain settings, \<open>cfg_chain\<close> has an endpoint and a key but
  no registry address.
\<close>

definition cfg_off :: config where
  "cfg_off =
     \<lparr>APP_ROOT = ''/srv/artifacts'', VALIDATION_CSV = ''iris_test_split.csv'',
      CALIBRATION_SAMPLES = 5, GENERAL_CONTRACT_ADDRESS = None,
      GENERAL_CONTRACT_ABI_PATH = ''../Verifier.abi'', WEB3_HTTP_PROVIDER = None,
      WEB3_OPERATOR_KEY = None, SOLC_VERSION = ''0.8.20'',
      REGISTRY_FUNCTION_NAME = ''../registerModel'', cwd = [''srv'']\<rparr>"

definition cfg_chain :: config where
  "cfg_chain =
     cfg_off\<lparr>WEB3_HTTP_PROVIDER := Some ''http://node:8545'', WEB3_OPERATOR_KEY := Some ''0x01''\<rparr>"

definition tree0 :: tree where
  "tree0 =
     [[''srv''] \<mapsto> Dir,
      [''srv'', ''iris_test_split.csv''] \<mapsto> File (Raw [97, 44, 98]),
      [''srv'', ''artifacts''] \<mapsto> Dir,
      [''srv'', ''artifacts'', ''t2''] \<mapsto> Dir,
      [''srv'', ''artifacts'', ''t2'', ''secret''] \<mapsto> File (Raw [1, 2, 3])]"

definition state0 :: pstate where
  "state0 = \<lparr>fsys = tree0, ledger = [], clock = 0, faults = []\<rparr>"

text \<open>The validation frame of the installation, and a state whose task \<^verbatim>\<open>t2\<close> has a
  witness file without pretty elements.\<close>

definition frame_ab :: dataframe where
  "frame_ab = \<lparr>ncols = 3, rows = [([1, 2], ''A''), ([3, 4], ''B'')]\<rparr>"

definition state_null :: pstate where
  "state_null =
     state0\<lparr>fsys := tree0([''srv'', ''artifacts'', ''t2'', ''witness.json'']
                          \<mapsto> File (Doc (JObj [(''pretty_elements'', JNull)])))\<rparr>"

text \<open>A tool that stores a file and one that does nothing.\<close>

definition put_file :: "string \<Rightarrow> content \<Rightarrow> loc \<Rightarrow> tree \<Rightarrow> (exn + unit) \<times> tree" where
  "put_file p c cw t = (case write_node cw t p c of Inl e \<Rightarrow> (Inl e, t) | Inr t' \<Rightarrow> (Inr (), t'))"

definition no_op :: "loc \<Rightarrow> tree \<Rightarrow> (exn + unit) \<times> tree" where
  "no_op cw t = (Inr (), t)"

definition witness_doc :: json where
  "witness_doc =
     JObj [(''pretty_elements'',
            JObj [(''rescaled_outputs'', JArr [JArr [JStr ''0.25'', JStr ''0.75'']])])]"

definition proof_doc :: json where
  "proof_doc = JObj [(''instances'', JArr [JArr [JStr ''0x01'']]), (''proof'', JStr ''0xab'')]"

text \<open>
  A toolkit whose operations all succeed: the frame has the labels \<^verbatim>\<open>A\<close> and \<^verbatim>\<open>B\<close>, the
  second row is drawn, the witness scores the second class highest, and a deployment is
  confirmed.
\<close>

definition tk_ok :: toolkit where
  "tk_ok =
     \<lparr>read_csv = (\<lambda>c. Inr frame_ab),
      random_row = (\<lambda>n. 1),
      sample_rows = (\<lambda>n xs. take n xs),
      parse_float = (\<lambda>s. if s = ''0.25'' then Some (1 / 4)
                          else if s = ''0.75'' then Some (3 / 4) else None),
      gen_settings = (\<lambda>m st. no_op),
      calibrate_settings = (\<lambda>d m st. no_op),
      compile_circuit = (\<lambda>m c st. no_op),
      get_srs = (\<lambda>st sr. no_op),
      gen_witness = (\<lambda>i c w. put_file w (Doc witness_doc)),
      ezkl_setup = (\<lambda>c v p. no_op),
      prove = (\<lambda>w c p pf cw t. (Inr proof_doc, t)),
      verify = (\<lambda>pf st v cw t. (Inr (JBool True), t)),
      create_evm_verifier = (\<lambda>v sr st sol abi cw t.
         case put_file sol (Raw [112]) cw t of
           (Inl e, t1) \<Rightarrow> (Inl e, t1)
         | (Inr u, t1) \<Rightarrow> put_file abi (Doc (JArr [])) cw t1),
      felt_to_big_endian = (\<lambda>j. case j of JStr x \<Rightarrow> Inr x | _ \<Rightarrow> Inl (Exn TypeError ''felt'')),
      get_installed_solc_versions = [''0.8.20''],
      install_solc = (\<lambda>v. Inr ()),
      compile_standard = (\<lambda>n src v. Inr (Some [(''Halo2Verifier'', ''6080'')])),
      account_from_key = (\<lambda>p k. Inr ''0xA1''),
      to_checksum_address = (\<lambda>a. Inr a),
      sign_deployment = (\<lambda>p k abi code. Inr (SignedV7 [1])),
      get_function_by_name = (\<lambda>abi n. True),
      sign_registration = (\<lambda>p k r abi fn tid h v pb a. Inr (SignedV7 [2])),
      send_and_wait = (\<lambda>p raw. Inr \<lparr>rstatus = 1, contractAddress = Some ''0xC0'',
                                    transactionHash = ''0xd1''\<rparr>),
      sha256 = (\<lambda>c. [0]),
      hex_bytes = (\<lambda>j. None),
      dumps_bytes = (\<lambda>j. [])\<rparr>"

text \<open>
  The same toolkit, whose settings generation fails, and a state in which the operating
  system refuses the sixth opening of a file for writing.
\<close>

definition state_faulty :: pstate where
  "state_faulty = state0\<lparr>faults := [False, False, False, False, False, True]\<rparr>"

text \<open>The summaries of the runs of task \<^verbatim>\<open>t1\<close> without and with the chain settings.\<close>

definition res_off :: pipeline_result where
  "res_off =
     \<lparr>result_task_id = ''t1'', artifacts = paths_of ''/srv/artifacts/t1'',
      pub_inputs_pretty = ''['' @ [CHR 0x22] @ ''0x01'' @ [CHR 0x22] @ '']'',
      pub_inputs = [''0x01''],
      result_prediction = \<lparr>scores = [1 / 4, 3 / 4], predicted_index = Some 1\<rparr>,
      verification = JBool True, accuracy = Some 1,
      verifier_contract = None, verifier_deploy_tx = None, tx_hash = None\<rparr>"

definition res_chain :: pipeline_result where
  "res_chain = res_off\<lparr>verifier_contract := Some ''0xC0'', verifier_deploy_tx := Some ''0xd1''\<rparr>"



definition tk_fail :: toolkit where
  "tk_fail = tk_ok\<lparr>gen_settings := (\<lambda>m st cw t. (Inl (Exn ToolkitError ''no such model''), t))\<rparr>"

section \<open>The file system\<close>


lemma split_slash_not_Nil: "split_slash s \<noteq> []"
  by (induction s) (auto split: list.splits)

lemma split_slash_noslash: "CHR ''/'' \<notin> set s \<Longrightarrow> split_slash s = [s]"
  by (induction s) auto

lemma split_slash_append: "split_slash (a @ CHR ''/'' # b) = split_slash a @ split_slash b"
  by (induction a) (auto split: list.splits simp: split_slash_not_Nil)

lemma walk_append:
  "walk t cur (xs @ ys) = (case walk t cur xs of None \<Rightarrow> None | Some q \<Rightarrow> walk t q ys)"
  by (induction xs arbitrary: cur) auto

lemma adds_dirs_refl: "adds_dirs t t"
  by (simp add: adds_dirs_def)

lemma adds_dirs_trans: "adds_dirs t u \<Longrightarrow> adds_dirs u v \<Longrightarrow> adds_dirs t v"
  unfolding adds_dirs_def by metis

lemma adds_dirs_upd: "t q = None \<Longrightarrow> adds_dirs t (t(q \<mapsto> Dir))"
  by (simp add: adds_dirs_def)

lemma mkdirs_adds_dirs: "mkdirs p t cur cs = (r, t') \<Longrightarrow> adds_dirs t t'"
proof (induction cs arbitrary: t cur)
  case Nil
  then show ?case by (simp add: adds_dirs_refl)
next
  case (Cons c cs)
  show ?case
  proof (cases "\<not> is_dir t cur \<or> c = [] \<or> c = ''.'' \<or> c = ''..''")
    case True
    with Cons show ?thesis by (auto simp: adds_dirs_refl split: if_splits)
  next
    case False
    show ?thesis
    proof (cases "node_at t (cur @ [c])")
      case None
      with False Cons.prems have "mkdirs p (t(cur @ [c] \<mapsto> Dir)) (cur @ [c]) cs = (r, t')" by simp
      then have "adds_dirs (t(cur @ [c] \<mapsto> Dir)) t'" by (rule Cons.IH)
      moreover from None have "t (cur @ [c]) = None" by (simp add: node_at_def)
      ultimately show ?thesis using adds_dirs_upd adds_dirs_trans by blast
    next
      case (Some n)
      with False Cons show ?thesis by (cases n) (auto simp: adds_dirs_refl)
    qed
  qed
qed

lemma adds_dirs_is_dir: "adds_dirs t t' \<Longrightarrow> is_dir t q \<Longrightarrow> is_dir t' q"
  unfolding adds_dirs_def is_dir_def node_at_def by (metis option.distinct(1))

lemma mkdirs_idem: "mkdirs p t cur cs = (Inr (), t') \<Longrightarrow> mkdirs p t' cur cs = (Inr (), t')"
proof (induction cs arbitrary: t cur)
  case Nil
  then show ?case by simp
next
  case (Cons c cs)
  from Cons.prems have d: "is_dir t cur" by (auto split: if_splits)
  have ad: "adds_dirs t t'" using Cons.prems by (rule mkdirs_adds_dirs)
  then have d': "is_dir t' cur" using d by (rule adds_dirs_is_dir)
  show ?case
  proof (cases "c = [] \<or> c = ''.'' \<or> c = ''..''")
    case True
    with Cons d d' show ?thesis by (auto split: if_splits)
  next
    case False
    have rec: "mkdirs p t' (cur @ [c]) cs = (Inr (), t') \<and> is_dir t' (cur @ [c])"
    proof (cases "node_at t (cur @ [c])")
      case None
      with False d Cons.prems have m: "mkdirs p (t(cur @ [c] \<mapsto> Dir)) (cur @ [c]) cs = (Inr (), t')" by simp
      have "is_dir (t(cur @ [c] \<mapsto> Dir)) (cur @ [c])" by (simp add: is_dir_def node_at_def)
      with mkdirs_adds_dirs[OF m] have "is_dir t' (cur @ [c])" by (rule adds_dirs_is_dir)
      with Cons.IH[OF m] show ?thesis by simp
    next
      case (Some n)
      show ?thesis
      proof (cases n)
        case Dir
        with Some False d Cons.prems have m: "mkdirs p t (cur @ [c]) cs = (Inr (), t')" by simp
        from Some Dir have "is_dir t (cur @ [c])" by (simp add: is_dir_def)
        with ad have "is_dir t' (cur @ [c])" by (rule adds_dirs_is_dir)
        with Cons.IH[OF m] show ?thesis by simp
      next
        case (File x)
        with Some False d Cons.prems show ?thesis by simp
      qed
    qed
    then show ?thesis using False d' by (simp add: is_dir_def)
  qed
qed

lemma walk_dir_start: "walk t cur cs = Some q \<Longrightarrow> is_dir t q \<Longrightarrow> is_dir t cur"
  by (cases cs) (auto split: if_splits)

lemma mkdirs_existing:
  "walk t cur cs = Some q \<Longrightarrow> is_dir t q \<Longrightarrow> mkdirs p t cur cs = (Inr (), t)"
proof (induction cs arbitrary: cur)
  case Nil
  then show ?case by simp
next
  case (Cons c cs)
  from Cons.prems have d: "is_dir t cur" by (auto split: if_splits)
  show ?case
  proof (cases "c = [] \<or> c = ''.'' \<or> c = ''..''")
    case True
    with Cons d show ?thesis by (auto split: if_splits)
  next
    case False
    with Cons.prems d have w: "walk t (cur @ [c]) cs = Some q" by simp
    then have "is_dir t (cur @ [c])" using Cons.prems(2) by (rule walk_dir_start)
    then have "node_at t (cur @ [c]) = Some Dir" by (simp add: is_dir_def)
    with False d Cons.IH[OF w Cons.prems(2)] show ?thesis by simp
  qed
qed




lemma join_split:
  assumes "CHR ''/'' \<notin> set a"
  shows "\<exists>pre. split_slash (path_join b a) = pre @ [a]
           \<and> is_abs (path_join b a) = is_abs b
           \<and> (\<forall>t st q. walk t st pre = Some q \<and> is_dir t q \<longrightarrow> walk t st (split_slash b) = Some q)"
proof -
  from assms have na: "\<not> (a \<noteq> [] \<and> hd a = CHR ''/'')" by (cases a) auto
  show ?thesis
  proof (cases "b = []")
    case True
    with na assms have "split_slash (path_join b a) = [] @ [a]"
      by (simp add: path_join_def split_slash_noslash)
    moreover from True na have "is_abs (path_join b a) = is_abs b"
      by (auto simp: path_join_def is_abs_def)
    moreover from True have "\<forall>t st q. walk t st [] = Some q \<and> is_dir t q \<longrightarrow> walk t st (split_slash b) = Some q"
      by simp
    ultimately show ?thesis by blast
  next
    case False
    show ?thesis
    proof (cases "last b = CHR ''/''")
      case True
      with False obtain b' where b: "b = b' @ ''/''" by (metis append_butlast_last_id)
      with na False have "path_join b a = b' @ CHR ''/'' # a" by (simp add: path_join_def)
      then have 1: "split_slash (path_join b a) = split_slash b' @ [a]"
        using assms by (simp add: split_slash_append split_slash_noslash)
      from b False na have 2: "is_abs (path_join b a) = is_abs b"
        by (cases b') (auto simp: path_join_def is_abs_def)
      from b have "split_slash b = split_slash b' @ [[]]"
        using split_slash_append[of b' "[]"] by simp
      then have 3: "\<forall>t st q. walk t st (split_slash b') = Some q \<and> is_dir t q \<longrightarrow> walk t st (split_slash b) = Some q"
        by (simp add: walk_append)
      from 1 2 3 show ?thesis by blast
    next
      case nl: False
      with na False have "path_join b a = b @ CHR ''/'' # a" by (simp add: path_join_def)
      then have 1: "split_slash (path_join b a) = split_slash b @ [a]"
        using assms by (simp add: split_slash_append split_slash_noslash)
      from nl False na have 2: "is_abs (path_join b a) = is_abs b"
        by (cases b) (auto simp: path_join_def is_abs_def)
      from 1 2 show ?thesis by blast
    qed
  qed
qed



lemma resolve_component:
  assumes ns: "CHR ''/'' \<notin> set a" and na: "a \<noteq> []" "a \<noteq> ''.''" "a \<noteq> ''..''"
    and r: "resolve cw t (path_join b a) = Some r"
  shows "\<exists>q. resolve cw t b = Some q \<and> is_dir t q \<and> r = q @ [a]"
proof -
  from join_split[OF ns, of b] obtain pre where
    sp: "split_slash (path_join b a) = pre @ [a]"
    and ab: "is_abs (path_join b a) = is_abs b"
    and wk: "\<And>t st q. walk t st pre = Some q \<Longrightarrow> is_dir t q \<Longrightarrow> walk t st (split_slash b) = Some q"
    by blast
  let ?st = "if is_abs b then [] else cw"
  from r sp ab have w: "walk t ?st (pre @ [a]) = Some r" by (simp add: resolve_def)
  then obtain q where q: "walk t ?st pre = Some q" and qa: "walk t q [a] = Some r"
    by (auto simp: walk_append split: option.splits)
  from qa have dq: "is_dir t q" by (auto split: if_splits)
  with qa na have "r = q @ [a]" by auto
  moreover from wk[OF q dq] have "resolve cw t b = Some q" by (simp add: resolve_def)
  ultimately show ?thesis using dq by blast
qed

lemma path_join_inj: "\<not> is_abs a \<Longrightarrow> \<not> is_abs b \<Longrightarrow> path_join ar a = path_join ar b \<Longrightarrow> a = b"
  by (auto simp: path_join_def is_abs_def split: if_splits)

lemma path_join_not_Nil: "a \<noteq> [] \<Longrightarrow> path_join ar a \<noteq> []"
  by (auto simp: path_join_def)

lemma makedirs_adds_dirs: "makedirs cw p t = (r, t') \<Longrightarrow> adds_dirs t t'"
  by (auto simp: makedirs_def adds_dirs_refl mkdirs_adds_dirs split: if_splits)

lemma makedirs_idem: "makedirs cw p t = (Inr (), t') \<Longrightarrow> makedirs cw p t' = (Inr (), t')"
  by (auto simp: makedirs_def mkdirs_idem split: if_splits)

lemma makedirs_existing:
  "p \<noteq> [] \<Longrightarrow> resolve cw t p = Some q \<Longrightarrow> is_dir t q \<Longrightarrow> makedirs cw p t = (Inr (), t)"
  by (simp add: makedirs_def resolve_def mkdirs_existing)


lemma task_paths_unfold:
  "task_paths cfg tid s =
     (case makedirs (cwd cfg) (path_join (APP_ROOT cfg) tid) (fsys s) of
        (Inl e, t) \<Rightarrow> (Inl e, s\<lparr>fsys := t\<rparr>)
      | (Inr u, t) \<Rightarrow> (Inr (paths_of (path_join (APP_ROOT cfg) tid)), s\<lparr>fsys := t\<rparr>))"
  by (simp add: task_paths_def ensure_dir_def on_tree_def bnd_def ret_def Let_def
      split: prod.splits sum.splits)

lemma task_paths_frame:
  assumes "task_paths cfg tid s = (r, s')"
  shows "ledger s' = ledger s \<and> clock s' = clock s \<and> faults s' = faults s
         \<and> adds_dirs (fsys s) (fsys s')"
proof -
  obtain r0 t where m: "makedirs (cwd cfg) (path_join (APP_ROOT cfg) tid) (fsys s) = (r0, t)"
    by (cases "makedirs (cwd cfg) (path_join (APP_ROOT cfg) tid) (fsys s)")
  with assms have "s' = s\<lparr>fsys := t\<rparr>"
    by (cases r0) (auto simp: task_paths_unfold)
  with makedirs_adds_dirs[OF m] show ?thesis by simp
qed

lemma task_paths_Inr:
  assumes "task_paths cfg tid s = (Inr p, s')"
  shows "p = paths_of (path_join (APP_ROOT cfg) tid)
         \<and> makedirs (cwd cfg) (path_join (APP_ROOT cfg) tid) (fsys s) = (Inr (), fsys s')
         \<and> s' = s\<lparr>fsys := fsys s'\<rparr>"
  using assms by (auto simp: task_paths_unfold split: prod.splits sum.splits)

lemma task_paths_existing:
  assumes "tid \<noteq> []" "resolve (cwd cfg) (fsys s) (path_join (APP_ROOT cfg) tid) = Some q"
    "is_dir (fsys s) q"
  shows "task_paths cfg tid s = (Inr (paths_of (path_join (APP_ROOT cfg) tid)), s)"
  using makedirs_existing[OF path_join_not_Nil[OF assms(1)] assms(2,3)]
  by (simp add: task_paths_unfold)

lemma bnd_Inr:
  "bnd m f s = (Inr y, s') \<longleftrightarrow> (\<exists>x s1. m s = (Inr x, s1) \<and> f x s1 = (Inr y, s'))"
  by (auto simp: bnd_def split: prod.splits sum.splits)

lemma get_status_unfold:
  "get_status cfg tid s =
     (case task_paths cfg tid s of
        (Inl e, s1) \<Rightarrow> (Inl e, s1)
      | (Inr paths, s1) \<Rightarrow>
          (if \<not> isfile (cwd cfg) (fsys s1) (status_file paths)
           then (Inr (Response 404 (JsonBody (JObj [(''error'', JStr ''unknown task id'')]))), s1)
           else (case read_node (cwd cfg) (fsys s1) (status_file paths) of
                   Inl e \<Rightarrow> (Inl e, s1)
                 | Inr (Raw bs) \<Rightarrow> (Inl (Exn ValueError ''Expecting value: line 1 column 1 (char 0)''), s1)
                 | Inr (Doc j) \<Rightarrow> (Inr (Response 200 (JsonBody j)), s1))))"
  by (simp add: get_status_def bnd_def ret_def raise_def load_json_def read_file_def
      split: prod.splits sum.splits content.splits)





lemmas fs_eval =
  bnd_def ret_def raise_def on_tree_def task_paths_def ensure_dir_def makedirs_def paths_of_def
  path_join_def is_abs_def read_file_def load_json_def read_node_def resolve_def isfile_def
  node_at_def is_dir_def cfg_off_def tree0_def state0_def Let_def

section \<open>Artifact fetch\<close>




section \<open>Status query\<close>

text \<open>
  C7, as amended. A status query resolves the task's paths first, and that creates the
  task's directory when it is missing. Beyond new directories it changes nothing: no file
  is created or changed, no status record is stored, and when the directory exists the
  state stays as it is. A successful answer is the document in the task's status file.
\<close>

theorem get_status_frame:
  "get_status cfg tid s = (r, s') \<Longrightarrow>
     ledger s' = ledger s \<and> clock s' = clock s \<and> faults s' = faults s
     \<and> adds_dirs (fsys s) (fsys s')
     \<and> (tid \<noteq> [] \<and> (\<exists>q. resolve (cwd cfg) (fsys s) (path_join (APP_ROOT cfg) tid) = Some q
           \<and> is_dir (fsys s) q) \<longrightarrow> s' = s)
     \<and> (\<forall>j. r = Inr (Response 200 (JsonBody j)) \<longrightarrow>
          read_node (cwd cfg) (fsys s')
            (status_file (paths_of (path_join (APP_ROOT cfg) tid))) = Inr (Doc j))"
proof -
  assume g: "get_status cfg tid s = (r, s')"
  obtain r1 s1 where tp: "task_paths cfg tid s = (r1, s1)" by (cases "task_paths cfg tid s")
  from g tp have eq: "s' = s1"
    by (auto simp: get_status_unfold split: sum.splits if_splits content.splits)
  from task_paths_frame[OF tp] eq have 1: "ledger s' = ledger s \<and> clock s' = clock s
     \<and> faults s' = faults s \<and> adds_dirs (fsys s) (fsys s')" by simp
  have 2: "tid \<noteq> [] \<and> (\<exists>q. resolve (cwd cfg) (fsys s) (path_join (APP_ROOT cfg) tid) = Some q
           \<and> is_dir (fsys s) q) \<longrightarrow> s' = s"
    using task_paths_existing[of tid cfg s] tp eq by auto
  have 3: "\<forall>j. r = Inr (Response 200 (JsonBody j)) \<longrightarrow>
          read_node (cwd cfg) (fsys s')
            (status_file (paths_of (path_join (APP_ROOT cfg) tid))) = Inr (Doc j)"
  proof (intro allI impI)
    fix j assume r: "r = Inr (Response 200 (JsonBody j))"
    with g tp obtain p where p: "r1 = Inr p"
      by (cases r1) (auto simp: get_status_unfold)
    with tp task_paths_Inr have pp: "p = paths_of (path_join (APP_ROOT cfg) tid)" by blast
    from g tp p r eq show "read_node (cwd cfg) (fsys s')
            (status_file (paths_of (path_join (APP_ROOT cfg) tid))) = Inr (Doc j)"
      unfolding pp by (auto simp: get_status_unfold split: sum.splits if_splits content.splits)
  qed
  from 1 2 3 show ?thesis by blast
qed


theorem get_status_frame_witness:
  "adds_dirs (fsys state0) (fsys (snd (get_status cfg_off ''t2'' state0)))
   \<and> ledger (snd (get_status cfg_off ''t2'' state0)) = ledger state0
   \<and> snd (get_status cfg_off ''t2'' state0) = state0"
proof -
  have r: "''t2'' \<noteq> [] \<and> (\<exists>q. resolve (cwd cfg_off) (fsys state0) (path_join (APP_ROOT cfg_off) ''t2'')
          = Some q \<and> is_dir (fsys state0) q)"
    by (simp add: fs_eval)
  have g: "get_status cfg_off ''t2'' state0
             = (fst (get_status cfg_off ''t2'' state0), snd (get_status cfg_off ''t2'' state0))"
    by simp
  note T = get_status_frame[OF g]
  from T have 1: "adds_dirs (fsys state0) (fsys (snd (get_status cfg_off ''t2'' state0)))"
    by (elim conjE)
  from T have 2: "ledger (snd (get_status cfg_off ''t2'' state0)) = ledger state0"
    by (elim conjE)
  from T have "''t2'' \<noteq> [] \<and> (\<exists>q. resolve (cwd cfg_off) (fsys state0)
       (path_join (APP_ROOT cfg_off) ''t2'') = Some q \<and> is_dir (fsys state0) q)
       \<longrightarrow> snd (get_status cfg_off ''t2'' state0) = state0"
    by (elim conjE)
  with r have 3: "snd (get_status cfg_off ''t2'' state0) = state0" by (rule rev_mp)
  from 1 2 3 show ?thesis by (intro conjI)
qed

text \<open>
  The claim as stated fails: the query for an identifier that was never uploaded creates
  its directory.
\<close>

theorem get_status_creates_counterexample:
  "fsys state0 [''srv'', ''artifacts'', ''t9''] = None
   \<and> fsys (snd (get_status cfg_off ''t9'' state0)) [''srv'', ''artifacts'', ''t9''] = Some Dir
   \<and> fst (get_status cfg_off ''t9'' state0)
       = Inr (Response 404 (JsonBody (JObj [(''error'', JStr ''unknown task id'')])))"
  by (simp add: get_status_def fs_eval)

section \<open>The artifact set\<close>

text \<open>
  C8, as amended. Resolving the artifact set returns the paths built from the artifacts
  root and the task identifier, whatever the state; a second call returns the same paths
  and changes nothing; no existing node is changed; and an existing directory is no error.
  Distinct identifiers that are relative paths have distinct path sets, and distinct
  identifiers that are single names (no slash, not \<^verbatim>\<open>.\<close> or \<^verbatim>\<open>..\<close>) have distinct
  directories. An identifier that begins with a slash replaces the root and can collide.
\<close>

theorem task_paths_idempotent:
  "(task_paths cfg tid s = (Inr p, s') \<longrightarrow>
      p = paths_of (path_join (APP_ROOT cfg) tid)
      \<and> task_paths cfg tid s' = (Inr p, s')
      \<and> (\<forall>l. fsys s l \<noteq> None \<longrightarrow> fsys s' l = fsys s l))
   \<and> (tid \<noteq> [] \<and> resolve (cwd cfg) (fsys s) (path_join (APP_ROOT cfg) tid) = Some q
        \<and> is_dir (fsys s) q \<longrightarrow>
      task_paths cfg tid s = (Inr (paths_of (path_join (APP_ROOT cfg) tid)), s))
   \<and> (\<not> is_abs a \<and> \<not> is_abs b \<and> a \<noteq> b \<longrightarrow>
        paths_of (path_join ar a) \<noteq> paths_of (path_join ar b))
   \<and> (CHR ''/'' \<notin> set a \<and> a \<notin> {[], ''.'', ''..''} \<and> CHR ''/'' \<notin> set b
        \<and> b \<notin> {[], ''.'', ''..''} \<and> a \<noteq> b
        \<and> resolve cw t (path_join ar a) = Some la \<and> resolve cw t (path_join ar b) = Some lb
      \<longrightarrow> la \<noteq> lb)"
proof (intro conjI impI)
  assume tp: "task_paths cfg tid s = (Inr p, s')"
  from task_paths_Inr[OF tp] show "p = paths_of (path_join (APP_ROOT cfg) tid)" by simp
  from task_paths_Inr[OF tp] have p: "p = paths_of (path_join (APP_ROOT cfg) tid)"
    and m: "makedirs (cwd cfg) (path_join (APP_ROOT cfg) tid) (fsys s) = (Inr (), fsys s')"
    by simp_all
  from makedirs_idem[OF m] p show "task_paths cfg tid s' = (Inr p, s')"
    by (simp add: task_paths_unfold)
  from makedirs_adds_dirs[OF m] show "\<forall>l. fsys s l \<noteq> None \<longrightarrow> fsys s' l = fsys s l"
    unfolding adds_dirs_def by metis
next
  assume "tid \<noteq> [] \<and> resolve (cwd cfg) (fsys s) (path_join (APP_ROOT cfg) tid) = Some q
        \<and> is_dir (fsys s) q"
  then show "task_paths cfg tid s = (Inr (paths_of (path_join (APP_ROOT cfg) tid)), s)"
    using task_paths_existing by blast
next
  assume h: "\<not> is_abs a \<and> \<not> is_abs b \<and> a \<noteq> b"
  show "paths_of (path_join ar a) \<noteq> paths_of (path_join ar b)"
  proof
    assume "paths_of (path_join ar a) = paths_of (path_join ar b)"
    then have "base (paths_of (path_join ar a)) = base (paths_of (path_join ar b))" by simp
    then have "path_join ar a = path_join ar b" by (simp add: paths_of_def)
    with h show False using path_join_inj by blast
  qed
next
  assume h: "CHR ''/'' \<notin> set a \<and> a \<notin> {[], ''.'', ''..''} \<and> CHR ''/'' \<notin> set b
        \<and> b \<notin> {[], ''.'', ''..''} \<and> a \<noteq> b
        \<and> resolve cw t (path_join ar a) = Some la \<and> resolve cw t (path_join ar b) = Some lb"
  then obtain qa where qa: "resolve cw t ar = Some qa" "la = qa @ [a]"
    using resolve_component[of a cw t ar la] by auto
  from h obtain qb where qb: "resolve cw t ar = Some qb" "lb = qb @ [b]"
    using resolve_component[of b cw t ar lb] by auto
  from qa qb h show "la \<noteq> lb" by simp
qed


theorem task_paths_idempotent_witness:
  "task_paths cfg_off ''t2'' state0 = (Inr (paths_of ''/srv/artifacts/t2''), state0)
   \<and> paths_of (path_join ''/srv/artifacts'' ''t1'') \<noteq> paths_of (path_join ''/srv/artifacts'' ''t2'')"
proof -
  have r: "''t2'' \<noteq> [] \<and> resolve (cwd cfg_off) (fsys state0) (path_join (APP_ROOT cfg_off) ''t2'')
          = Some [''srv'', ''artifacts'', ''t2'']
        \<and> is_dir (fsys state0) [''srv'', ''artifacts'', ''t2'']"
    by (simp add: fs_eval)
  have p: "path_join (APP_ROOT cfg_off) ''t2'' = ''/srv/artifacts/t2''"
    by (simp add: path_join_def cfg_off_def)
  have a: "\<not> is_abs ''t1'' \<and> \<not> is_abs ''t2'' \<and> ''t1'' \<noteq> ''t2''" by (simp add: is_abs_def)
  note T = task_paths_idempotent[where cfg = cfg_off and tid = "''t2''" and s = state0
      and p = "paths_of ''/srv/artifacts/t2''" and s' = state0
      and q = "[''srv'', ''artifacts'', ''t2'']" and a = "''t1''" and b = "''t2''"
      and ar = "''/srv/artifacts''" and cw = "[]" and t = tree0 and la = "[]" and lb = "[]"]
  from T have "''t2'' \<noteq> [] \<and> resolve (cwd cfg_off) (fsys state0) (path_join (APP_ROOT cfg_off) ''t2'')
          = Some [''srv'', ''artifacts'', ''t2'']
        \<and> is_dir (fsys state0) [''srv'', ''artifacts'', ''t2'']
      \<longrightarrow> task_paths cfg_off ''t2'' state0
            = (Inr (paths_of (path_join (APP_ROOT cfg_off) ''t2'')), state0)"
    by (elim conjE)
  with r have 1: "task_paths cfg_off ''t2'' state0
            = (Inr (paths_of (path_join (APP_ROOT cfg_off) ''t2'')), state0)" by (rule rev_mp)
  from T have "\<not> is_abs ''t1'' \<and> \<not> is_abs ''t2'' \<and> ''t1'' \<noteq> ''t2'' \<longrightarrow>
      paths_of (path_join ''/srv/artifacts'' ''t1'') \<noteq> paths_of (path_join ''/srv/artifacts'' ''t2'')"
    by (elim conjE)
  with a have 2: "paths_of (path_join ''/srv/artifacts'' ''t1'')
      \<noteq> paths_of (path_join ''/srv/artifacts'' ''t2'')" by (rule rev_mp)
  from 1 2 show ?thesis unfolding p by (intro conjI)
qed

text \<open>
  The claim as stated fails: two distinct identifiers, one of them absolute, have the same
  artifact set.
\<close>

theorem task_paths_collision_counterexample:
  "''t1'' \<noteq> ''/srv/artifacts/t1''
   \<and> paths_of (path_join (APP_ROOT cfg_off) ''t1'')
       = paths_of (path_join (APP_ROOT cfg_off) ''/srv/artifacts/t1'')"
  by (simp add: path_join_def cfg_off_def)

section \<open>Accuracy scaling\<close>







section \<open>Labels and prediction\<close>






lemma extract_prediction_unfold:
  "extract_prediction cfg tk wp s =
     (case read_node (cwd cfg) (fsys s) wp of
        Inl e \<Rightarrow> (Inl e, s)
      | Inr (Raw bs) \<Rightarrow> (Inl (Exn ValueError ''Expecting value: line 1 column 1 (char 0)''), s)
      | Inr (Doc payload) \<Rightarrow>
          (case py_get payload ''pretty_elements'' (JObj []) of
             Inl e \<Rightarrow> (Inl e, s)
           | Inr pretty \<Rightarrow>
               (case py_get pretty ''rescaled_outputs'' JNull of
                  Inl e \<Rightarrow> (Inl e, s)
                | Inr outputs \<Rightarrow>
                    if \<not> py_bool outputs then (Inr \<lparr>scores = [], predicted_index = None\<rparr>, s)
                    else (case py_first outputs of
                            Inl e \<Rightarrow> (Inl e, s)
                          | Inr row \<Rightarrow>
                              (case py_iter row of
                                 Inl e \<Rightarrow> (Inl e, s)
                               | Inr xs \<Rightarrow>
                                   (case map_res (py_float (parse_float tk)) xs of
                                      Inl e \<Rightarrow> (Inl e, s)
                                    | Inr scs \<Rightarrow>
                                        (case argmax scs of
                                           Inl e \<Rightarrow> (Inl e, s)
                                         | Inr i \<Rightarrow> (Inr \<lparr>scores = scs, predicted_index = Some i\<rparr>, s))))))))"
  by (simp add: extract_prediction_def load_json_def read_file_def bnd_def ret_def raise_def
      lift_res_def split: sum.splits content.splits)

text \<open>
  What the extraction does for a payload that is an object whose pretty elements are
  missing, or are an object without a non-empty entry of rescaled outputs.
\<close>

lemma extract_prediction_empty:
  assumes "read_node (cwd cfg) (fsys s) wp = Inr (Doc (JObj kvs))"
    and "dict_get kvs ''pretty_elements'' = None
         \<or> (\<exists>pe. dict_get kvs ''pretty_elements'' = Some (JObj pe)
               \<and> (case dict_get pe ''rescaled_outputs'' of
                     None \<Rightarrow> True | Some v \<Rightarrow> \<not> py_bool v))"
  shows "extract_prediction cfg tk wp s = (Inr \<lparr>scores = [], predicted_index = None\<rparr>, s)"
  using assms
  by (auto simp: extract_prediction_unfold dict_get_def split: option.splits)

lemma accuracy_of_absent: "accuracy_of target None = None"
  by (simp add: accuracy_of_def split: option.splits)

text \<open>
  C10. The claim fails on the code for a witness payload whose \<^verbatim>\<open>pretty_elements\<close> entry
  is present and \<^verbatim>\<open>null\<close>: the default of the lookup covers a missing key only, and the
  next lookup raises. The run then fails instead of leaving the accuracy absent.
\<close>

theorem extract_prediction_null_pretty:
  "read_node (cwd cfg_off) (fsys state_null) ''/srv/artifacts/t2/witness.json''
     = Inr (Doc (JObj [(''pretty_elements'', JNull)]))
   \<and> fst (extract_prediction cfg_off tk_ok ''/srv/artifacts/t2/witness.json'' state_null)
       = Inl (no_attribute ''NoneType'' ''get'')"
  by (simp add: extract_prediction_unfold state_null_def dict_get_def fs_eval)

section \<open>Status records of a run\<close>

lemma bnd_InrE:
  assumes "bnd m f s = (Inr y, s')"
  obtains x s1 where "m s = (Inr x, s1)" and "f x s1 = (Inr y, s')"
  using assms by (auto simp: bnd_Inr)

lemma bnd_InlE:
  assumes "bnd m f s = (Inl e, s')"
  obtains "m s = (Inl e, s')" | x s1 where "m s = (Inr x, s1)" and "f x s1 = (Inl e, s')"
  using assms by (auto simp: bnd_def split: prod.splits sum.splits)

lemma silentD: "silent m \<Longrightarrow> m s = (r, s') \<Longrightarrow> ledger s' = ledger s"
  by (auto simp: silent_def)

lemma silent_entries: "silent m \<Longrightarrow> m s = (r, s') \<Longrightarrow> entries s' = entries s"
  by (simp add: entries_def silentD)

lemma silent_ret: "silent (ret x)"
  by (simp add: silent_def ret_def)

lemma silent_raise: "silent (raise e)"
  by (simp add: silent_def raise_def)

lemma silent_lift_res: "silent (lift_res r)"
  by (simp add: silent_def lift_res_def)

lemma silent_on_tree: "silent (on_tree f)"
  by (auto simp: silent_def on_tree_def split: prod.splits)

lemma silent_call: "silent (call cfg f)"
  by (simp add: call_def silent_on_tree)

lemma silent_read_file: "silent (read_file cfg p)"
  by (simp add: silent_def read_file_def)

lemma silent_write_file: "silent (write_file cfg p c)"
  by (auto simp: silent_def write_file_def Let_def split: if_splits sum.splits)

lemma silent_save_json: "silent (save_json cfg p j)"
  by (simp add: save_json_def silent_write_file)

lemma silent_bnd: "silent m \<Longrightarrow> (\<And>x. silent (f x)) \<Longrightarrow> silent (bnd m f)"
  unfolding silent_def bnd_def by (fastforce split: prod.splits sum.splits)

lemma silent_if: "silent a \<Longrightarrow> silent b \<Longrightarrow> silent (if c then a else b)"
  by simp

lemma silent_state_if: "silent a \<Longrightarrow> silent b \<Longrightarrow> silent (\<lambda>s. if c s then a s else b s)"
  by (auto simp: silent_def split: if_splits)

lemma silent_case_prod: "(\<And>a b. silent (f a b)) \<Longrightarrow> silent (case x of (a, b) \<Rightarrow> f a b)"
  by (cases x) simp

lemma silent_case_content:
  "(\<And>bs. silent (f bs)) \<Longrightarrow> (\<And>j. silent (g j)) \<Longrightarrow> silent (case c of Raw bs \<Rightarrow> f bs | Doc j \<Rightarrow> g j)"
  by (cases c) simp_all

lemma silent_load_json: "silent (load_json cfg p)"
  unfolding load_json_def
  by (intro silent_bnd silent_read_file silent_case_content silent_ret silent_raise)

lemma silent_task_paths: "silent (task_paths cfg tid)"
  unfolding task_paths_def Let_def ensure_dir_def
  by (intro silent_bnd silent_on_tree silent_ret)

lemma silent_load_validation_dataframe: "silent (load_validation_dataframe cfg tk)"
  unfolding load_validation_dataframe_def
  by (intro silent_state_if silent_bnd silent_read_file silent_lift_res silent_if
      silent_ret silent_raise)

lemma silent_pick_validation_sample: "silent (pick_validation_sample tk df)"
  unfolding pick_validation_sample_def by (intro silent_if silent_ret silent_raise)

lemma silent_format_pub_inputs: "silent (format_pub_inputs tk pp)"
  unfolding format_pub_inputs_def by (intro silent_bnd silent_lift_res silent_ret)

lemma silent_extract_prediction: "silent (extract_prediction cfg tk wp)"
  unfolding extract_prediction_def
  by (intro silent_bnd silent_load_json silent_lift_res silent_if silent_ret)

lemma silent_ensure_solc: "silent (ensure_solc tk v)"
  unfolding ensure_solc_def by (intro silent_if silent_lift_res silent_ret)

lemma silent_compile_verifier_bytecode: "silent (compile_verifier_bytecode cfg tk sp v)"
proof -
  have c: "silent (case cm of
              None \<Rightarrow> raise (Exn RuntimeError ''Compilation output missing contract data'')
            | Some [] \<Rightarrow> raise (Exn RuntimeError ''Compilation output missing contract data'')
            | Some ((contract_name, bytecode) # others) \<Rightarrow>
                if bytecode = [] then raise (Exn RuntimeError ''Verifier bytecode is empty'')
                else ret bytecode)" for cm :: "(string \<times> string) list option"
    by (auto simp: silent_raise silent_ret split: option.splits list.splits)
  show ?thesis
    unfolding compile_verifier_bytecode_def
    by (intro silent_state_if silent_bnd silent_raise silent_ensure_solc silent_read_file
        silent_lift_res c)
qed

lemma silent_deploy_verifier_contract: "silent (deploy_verifier_contract cfg tk tid)"
  unfolding deploy_verifier_contract_def
  by (intro silent_if silent_state_if silent_bnd silent_ret silent_raise silent_task_paths
      silent_compile_verifier_bytecode silent_load_json silent_lift_res)

lemma silent_register_model_onchain:
  "silent (register_model_onchain cfg tk tid mp pp va acc)"
  unfolding register_model_onchain_def
  by (intro silent_if silent_state_if silent_bnd silent_ret silent_raise silent_load_json
      silent_read_file silent_lift_res)


lemma register_skipped:
  "\<not> (truthy (GENERAL_CONTRACT_ADDRESS cfg) \<and> chain_on cfg \<and> truthy va) \<Longrightarrow>
     register_model_onchain cfg tk tid mp pp va acc = ret None"
  by (auto simp: register_model_onchain_def chain_on_def)

lemma update_status_Inr:
  assumes "update_status cfg p stp txt err s = (Inr u, s')"
  shows "ledger s' = ledger s @ [\<lparr>step = stp, message = txt, error = err, timestamp = clock s\<rparr>]"
    and "entries s' = entries s @ [(stp, txt, err)]"
    and "\<exists>q. fsys s' = (fsys s)(q \<mapsto> File (Doc (status_doc
            \<lparr>step = stp, message = txt, error = err, timestamp = clock s\<rparr>)))"
  using assms
  by (auto simp: update_status_def save_json_def write_file_def write_node_def entries_def Let_def
      split: if_splits sum.splits option.splits prod.splits)

lemma update_status_Inl:
  assumes "update_status cfg p stp txt err s = (Inl e, s')"
  shows "entries s' = entries s" and "fsys s' = fsys s"
  using assms
  by (auto simp: update_status_def save_json_def write_file_def write_node_def entries_def Let_def
      split: if_splits sum.splits option.splits prod.splits)

lemma update_status_refused:
  assumes "faults s \<noteq> []" and "hd (faults s)"
  shows "fst (update_status cfg p stp txt err s)
           = Inl (Exn OSError (''[Errno 5] Input/output error: '' @ status_file p))"
  using assms by (simp add: update_status_def save_json_def write_file_def Let_def)

subsection \<open>The stages before the chain\<close>

lemma leads_status:
  assumes "\<And>u. leads_to (f u) L T"
  shows "leads_to (bnd (update_status cfg p stp txt err) f) ((stp, txt, err) # L) T"
  unfolding leads_to_def
proof (intro allI impI)
  fix s r s'
  assume b: "bnd (update_status cfg p stp txt err) f s = (r, s')"
  obtain r1 s1 where u: "update_status cfg p stp txt err s = (r1, s1)"
    by (cases "update_status cfg p stp txt err s")
  show "(\<exists>e k. r = Inl e \<and> k \<le> length ((stp, txt, err) # L)
            \<and> entries s' = entries s @ take k ((stp, txt, err) # L))
        \<or> (\<exists>c sm. c \<in> T \<and> entries sm = entries s @ (stp, txt, err) # L \<and> c sm = (r, s'))"
  proof (cases r1)
    case (Inl e)
    with b u have "r = Inl e" "s' = s1" by (simp_all add: bnd_def)
    moreover from u Inl have "entries s1 = entries s" using update_status_Inl(1) by blast
    ultimately have "r = Inl e \<and> 0 \<le> length ((stp, txt, err) # L)
        \<and> entries s' = entries s @ take 0 ((stp, txt, err) # L)" by simp
    then show ?thesis by blast
  next
    case (Inr x)
    with b u have f: "f x s1 = (r, s')" by (simp add: bnd_def)
    from u Inr have e1: "entries s1 = entries s @ [(stp, txt, err)]"
      using update_status_Inr(2) by blast
    from assms[of x] f have
      "(\<exists>e k. r = Inl e \<and> k \<le> length L \<and> entries s' = entries s1 @ take k L)
       \<or> (\<exists>c sm. c \<in> T \<and> entries sm = entries s1 @ L \<and> c sm = (r, s'))"
      unfolding leads_to_def by blast
    then show ?thesis
    proof
      assume "\<exists>e k. r = Inl e \<and> k \<le> length L \<and> entries s' = entries s1 @ take k L"
      then obtain e k where "r = Inl e" "k \<le> length L" "entries s' = entries s1 @ take k L"
        by blast
      with e1 have "r = Inl e \<and> Suc k \<le> length ((stp, txt, err) # L)
          \<and> entries s' = entries s @ take (Suc k) ((stp, txt, err) # L)" by simp
      then show ?thesis by blast
    next
      assume "\<exists>c sm. c \<in> T \<and> entries sm = entries s1 @ L \<and> c sm = (r, s')"
      with e1 show ?thesis by auto
    qed
  qed
qed

lemma leads_silent:
  assumes m: "silent m" and f: "\<And>x. leads_to (f x) L T"
  shows "leads_to (bnd m f) L T"
  unfolding leads_to_def
proof (intro allI impI)
  fix s r s'
  assume b: "bnd m f s = (r, s')"
  obtain r1 s1 where u: "m s = (r1, s1)" by (cases "m s")
  from silent_entries[OF m u] have e1: "entries s1 = entries s" .
  show "(\<exists>e k. r = Inl e \<and> k \<le> length L \<and> entries s' = entries s @ take k L)
        \<or> (\<exists>c sm. c \<in> T \<and> entries sm = entries s @ L \<and> c sm = (r, s'))"
  proof (cases r1)
    case (Inl e)
    with b u e1 have "r = Inl e \<and> 0 \<le> length L \<and> entries s' = entries s @ take 0 L"
      by (simp add: bnd_def)
    then show ?thesis by blast
  next
    case (Inr x)
    with b u have "f x s1 = (r, s')" by (simp add: bnd_def)
    with f[of x] e1 show ?thesis unfolding leads_to_def by metis
  qed
qed

lemma leads_case_prod:
  "(\<And>a b. leads_to (f a b) L T) \<Longrightarrow> leads_to (case x of (a, b) \<Rightarrow> f a b) L T"
  by (cases x) simp

lemma leads_base: "c \<in> T \<Longrightarrow> leads_to c [] T"
  unfolding leads_to_def by auto

lemma silent_proof_choice:
  "silent (case proved of JObj kvs \<Rightarrow> ret proved | _ \<Rightarrow> load_json cfg p)"
  by (cases proved) (simp_all add: silent_ret silent_load_json)

lemma run_pipeline_async_leads:
  "leads_to (run_pipeline_async cfg tk tid stream) front_entries
     {c. \<exists>pp vr ti. c = chain_stages cfg tk tid (paths_of (path_join (APP_ROOT cfg) tid)) pp vr ti}"
proof -
  have tp: "task_paths cfg tid = bnd (ensure_dir cfg (path_join (APP_ROOT cfg) tid))
              (\<lambda>_. ret (paths_of (path_join (APP_ROOT cfg) tid)))"
    by (simp add: task_paths_def Let_def)
  have assoc: "bnd (bnd m (\<lambda>_. ret v)) g = bnd m (\<lambda>_. g v)" for m :: "unit comp" and v :: artifact_paths
    and g :: "artifact_paths \<Rightarrow> pipeline_result comp"
    by (rule ext) (simp add: bnd_def ret_def split: prod.splits sum.splits)
  show ?thesis
    unfolding run_pipeline_async_def front_entries_def tp assoc
    by (intro leads_status leads_silent leads_case_prod leads_base
        silent_on_tree[of "makedirs (cwd cfg) (path_join (APP_ROOT cfg) tid)", folded ensure_dir_def]
        silent_write_file silent_save_json silent_call silent_load_validation_dataframe
        silent_pick_validation_sample silent_if silent_raise silent_ret silent_proof_choice)
      blast
qed

subsection \<open>The chain stages\<close>

lemma deploy_branch_Inr:
  assumes "(if truthy (WEB3_HTTP_PROVIDER cfg) \<and> truthy (WEB3_OPERATOR_KEY cfg)
            then bnd (update_status cfg p ''verifier_deploy'' ''Deploying verifier contract'' None)
                   (\<lambda>_. bnd (deploy_verifier_contract cfg tk tid)
                     (\<lambda>dep. ret (case dep of
                                  None \<Rightarrow> (None, None)
                                | Some d \<Rightarrow> (address d, Some (deploy_tx_hash d)))))
            else ret (None, None)) s = (Inr (va, dtx), s1)"
  shows "entries s1 = entries s @ deploy_entries cfg"
    and "\<not> chain_on cfg \<Longrightarrow> va = None \<and> dtx = None"
proof -
  show "\<not> chain_on cfg \<Longrightarrow> va = None \<and> dtx = None"
    using assms by (auto simp: chain_on_def ret_def)
  show "entries s1 = entries s @ deploy_entries cfg"
  proof (cases "chain_on cfg")
    case False
    with assms show ?thesis by (auto simp: chain_on_def deploy_entries_def ret_def)
  next
    case True
    with assms have "bnd (update_status cfg p ''verifier_deploy'' ''Deploying verifier contract'' None)
                   (\<lambda>_. bnd (deploy_verifier_contract cfg tk tid)
                     (\<lambda>dep. ret (case dep of
                                  None \<Rightarrow> (None, None)
                                | Some d \<Rightarrow> (address d, Some (deploy_tx_hash d))))) s
                 = (Inr (va, dtx), s1)"
      by (simp add: chain_on_def)
    then obtain u sa where u: "update_status cfg p ''verifier_deploy''
          ''Deploying verifier contract'' None s = (Inr u, sa)"
      and d: "bnd (deploy_verifier_contract cfg tk tid)
                     (\<lambda>dep. ret (case dep of
                                  None \<Rightarrow> (None, None)
                                | Some d \<Rightarrow> (address d, Some (deploy_tx_hash d)))) sa
                = (Inr (va, dtx), s1)"
      by (rule bnd_InrE)
    have "silent (bnd (deploy_verifier_contract cfg tk tid)
                     (\<lambda>dep. ret (case dep of
                                  None \<Rightarrow> (None, None)
                                | Some d \<Rightarrow> (address d, Some (deploy_tx_hash d)))))"
      by (intro silent_bnd silent_deploy_verifier_contract silent_ret)
    from silent_entries[OF this d] update_status_Inr(2)[OF u] True
    show ?thesis by (simp add: deploy_entries_def)
  qed
qed

lemma deploy_branch_Inl:
  assumes "(if truthy (WEB3_HTTP_PROVIDER cfg) \<and> truthy (WEB3_OPERATOR_KEY cfg)
            then bnd (update_status cfg p ''verifier_deploy'' ''Deploying verifier contract'' None)
                   (\<lambda>_. bnd (deploy_verifier_contract cfg tk tid)
                     (\<lambda>dep. ret (case dep of
                                  None \<Rightarrow> (None, None)
                                | Some d \<Rightarrow> (address d, Some (deploy_tx_hash d)))))
            else ret (None, None)) s = (Inl e, s1)"
  shows "\<exists>k \<le> length (deploy_entries cfg). entries s1 = entries s @ take k (deploy_entries cfg)"
proof (cases "chain_on cfg")
  case False
  with assms show ?thesis by (auto simp: chain_on_def ret_def)
next
  case True
  with assms have b: "bnd (update_status cfg p ''verifier_deploy'' ''Deploying verifier contract'' None)
                   (\<lambda>_. bnd (deploy_verifier_contract cfg tk tid)
                     (\<lambda>dep. ret (case dep of
                                  None \<Rightarrow> (None, None)
                                | Some d \<Rightarrow> (address d, Some (deploy_tx_hash d))))) s
                 = (Inl e, s1)"
    by (simp add: chain_on_def)
  have sd: "silent (bnd (deploy_verifier_contract cfg tk tid)
                     (\<lambda>dep. ret (case dep of
                                  None \<Rightarrow> (None, None)
                                | Some d \<Rightarrow> (address d, Some (deploy_tx_hash d)))))"
    by (intro silent_bnd silent_deploy_verifier_contract silent_ret)
  from b show ?thesis
  proof (rule bnd_InlE)
    assume "update_status cfg p ''verifier_deploy'' ''Deploying verifier contract'' None s
              = (Inl e, s1)"
    then have "entries s1 = entries s @ take 0 (deploy_entries cfg)"
      using update_status_Inl(1) by fastforce
    then show ?thesis by blast
  next
    fix u sa
    assume u: "update_status cfg p ''verifier_deploy'' ''Deploying verifier contract'' None s
                 = (Inr u, sa)"
      and d: "bnd (deploy_verifier_contract cfg tk tid)
                     (\<lambda>dep. ret (case dep of
                                  None \<Rightarrow> (None, None)
                                | Some d \<Rightarrow> (address d, Some (deploy_tx_hash d)))) sa
                = (Inl e, s1)"
    from silent_entries[OF sd d] update_status_Inr(2)[OF u] True
    have "entries s1 = entries s @ take 1 (deploy_entries cfg)"
      by (simp add: deploy_entries_def)
    moreover from True have "1 \<le> length (deploy_entries cfg)" by (simp add: deploy_entries_def)
    ultimately show ?thesis by blast
  qed
qed

lemma register_branch_Inr:
  assumes "(if truthy va
            then bnd (update_status cfg p ''register'' ''Registering model on-chain'' None)
                   (\<lambda>_. register_model_onchain cfg tk tid mp pp va acc)
            else bnd (update_status cfg p ''register''
                        ''Skipping on-chain registration (no verifier deployment)'' None)
                   (\<lambda>_. ret None)) s = (Inr reg_tx, s1)"
  shows "entries s1 = entries s @ [register_entry (truthy va)]"
    and "\<not> (truthy (GENERAL_CONTRACT_ADDRESS cfg) \<and> chain_on cfg \<and> truthy va) \<Longrightarrow> reg_tx = None"
proof -
  show "entries s1 = entries s @ [register_entry (truthy va)]"
  proof (cases "truthy va")
    case True
    with assms obtain u sa where
      u: "update_status cfg p ''register'' ''Registering model on-chain'' None s = (Inr u, sa)"
      and r: "register_model_onchain cfg tk tid mp pp va acc sa = (Inr reg_tx, s1)"
      by (auto elim: bnd_InrE)
    from silent_entries[OF silent_register_model_onchain r] update_status_Inr(2)[OF u] True
    show ?thesis by (simp add: register_entry_def)
  next
    case False
    with assms obtain u sa where
      u: "update_status cfg p ''register''
            ''Skipping on-chain registration (no verifier deployment)'' None s = (Inr u, sa)"
      and r: "ret (None :: string option) sa = (Inr reg_tx, s1)"
      by (auto elim: bnd_InrE)
    from r update_status_Inr(2)[OF u] False show ?thesis
      by (simp add: register_entry_def ret_def)
  qed
  show "reg_tx = None"
    if n: "\<not> (truthy (GENERAL_CONTRACT_ADDRESS cfg) \<and> chain_on cfg \<and> truthy va)"
  proof (cases "truthy va")
    case True
    with assms obtain u sa where
      "register_model_onchain cfg tk tid mp pp va acc sa = (Inr reg_tx, s1)"
      by (auto elim: bnd_InrE)
    with register_skipped[OF n] show ?thesis by (simp add: ret_def)
  next
    case False
    with assms obtain u sa where "ret (None :: string option) sa = (Inr reg_tx, s1)"
      by (auto elim: bnd_InrE)
    then show ?thesis by (simp add: ret_def)
  qed
qed

lemma register_branch_Inl:
  assumes "(if truthy va
            then bnd (update_status cfg p ''register'' ''Registering model on-chain'' None)
                   (\<lambda>_. register_model_onchain cfg tk tid mp pp va acc)
            else bnd (update_status cfg p ''register''
                        ''Skipping on-chain registration (no verifier deployment)'' None)
                   (\<lambda>_. ret None)) s = (Inl e, s1)"
  shows "\<exists>k \<le> 1. entries s1 = entries s @ take k [register_entry (truthy va)]"
proof (cases "truthy va")
  case True
  with assms have "bnd (update_status cfg p ''register'' ''Registering model on-chain'' None)
                   (\<lambda>_. register_model_onchain cfg tk tid mp pp va acc) s = (Inl e, s1)" by simp
  then show ?thesis
  proof (rule bnd_InlE)
    assume "update_status cfg p ''register'' ''Registering model on-chain'' None s = (Inl e, s1)"
    then have "entries s1 = entries s @ take 0 [register_entry (truthy va)]"
      using update_status_Inl(1) by fastforce
    then show ?thesis by blast
  next
    fix u sa
    assume u: "update_status cfg p ''register'' ''Registering model on-chain'' None s = (Inr u, sa)"
      and r: "register_model_onchain cfg tk tid mp pp va acc sa = (Inl e, s1)"
    from silent_entries[OF silent_register_model_onchain r] update_status_Inr(2)[OF u] True
    have "entries s1 = entries s @ take 1 [register_entry (truthy va)]"
      by (simp add: register_entry_def)
    then show ?thesis by blast
  qed
next
  case False
  with assms have "bnd (update_status cfg p ''register''
                        ''Skipping on-chain registration (no verifier deployment)'' None)
                   (\<lambda>_. ret (None :: string option)) s = (Inl e, s1)" by simp
  then show ?thesis
  proof (rule bnd_InlE)
    assume "update_status cfg p ''register''
              ''Skipping on-chain registration (no verifier deployment)'' None s = (Inl e, s1)"
    then have "entries s1 = entries s @ take 0 [register_entry (truthy va)]"
      using update_status_Inl(1) by fastforce
    then show ?thesis by blast
  next
    fix u sa
    assume "ret (None :: string option) sa = (Inl e, s1)"
    then show ?thesis by (simp add: ret_def)
  qed
qed


lemma chain_stages_Inl:
  assumes cs: "chain_stages cfg tk tid p pp vr ti s = (Inl e, s')"
  shows "\<exists>d k. k < length (tail_entries cfg d) \<and> entries s' = entries s @ take k (tail_entries cfg d)"
proof -
  define DEP where "DEP =
     (if truthy (WEB3_HTTP_PROVIDER cfg) \<and> truthy (WEB3_OPERATOR_KEY cfg)
      then bnd (update_status cfg p ''verifier_deploy'' ''Deploying verifier contract'' None)
             (\<lambda>_. bnd (deploy_verifier_contract cfg tk tid)
               (\<lambda>dep. ret (case dep of
                            None \<Rightarrow> (None, None)
                          | Some d \<Rightarrow> (address d, Some (deploy_tx_hash d)))))
      else ret (None, None))"
  define REG where "REG = (\<lambda>va (pred :: prediction).
     if truthy va
     then bnd (update_status cfg p ''register'' ''Registering model on-chain'' None)
            (\<lambda>_. register_model_onchain cfg tk tid (model p) pp va
                    (accuracy_of ti (predicted_index pred)))
     else bnd (update_status cfg p ''register''
                 ''Skipping on-chain registration (no verifier deployment)'' None)
            (\<lambda>_. ret None))"
  define FIN where "FIN = (\<lambda>va dtx formatted pretty pred reg_tx.
     bnd (update_status cfg p ''complete'' ''Pipeline finished'' None)
       (\<lambda>_. ret \<lparr>result_task_id = tid, artifacts = p, pub_inputs_pretty = pretty,
                  pub_inputs = formatted, result_prediction = pred, verification = vr,
                  accuracy = accuracy_of ti (predicted_index pred), verifier_contract = va,
                  verifier_deploy_tx = dtx, tx_hash = reg_tx\<rparr>))"
  have eq: "chain_stages cfg tk tid p pp vr ti =
      bnd DEP (\<lambda>(va, dtx). bnd (format_pub_inputs tk pp)
        (\<lambda>(formatted, pretty). bnd (extract_prediction cfg tk (witness p))
          (\<lambda>pred. bnd (REG va pred) (FIN va dtx formatted pretty pred))))"
    by (simp add: chain_stages_def DEP_def REG_def FIN_def Let_def)
  let ?D = "deploy_entries cfg"
  have len: "length (tail_entries cfg d) = length ?D + 2" for d
    by (simp add: tail_entries_def)
  have pre: "k \<le> length ?D \<Longrightarrow> take k (tail_entries cfg d) = take k ?D" for k d
    by (simp add: tail_entries_def)
  have pre1: "take (length ?D + k) (tail_entries cfg d) = ?D @ take k [register_entry d]"
    if "k \<le> 1" for k d
    using that by (cases k) (simp_all add: tail_entries_def)
  from cs[unfolded eq] show ?thesis
  proof (rule bnd_InlE)
    assume "DEP s = (Inl e, s')"
    from deploy_branch_Inl[OF this[unfolded DEP_def]] obtain k where
      "k \<le> length ?D" "entries s' = entries s @ take k ?D" by blast
    then have "k < length (tail_entries cfg False)
        \<and> entries s' = entries s @ take k (tail_entries cfg False)"
      by (simp add: len pre)
    then show ?thesis by blast
  next
    fix x s1
    assume d: "DEP s = (Inr x, s1)"
      and r1: "(case x of (va, dtx) \<Rightarrow> bnd (format_pub_inputs tk pp)
        (\<lambda>(formatted, pretty). bnd (extract_prediction cfg tk (witness p))
          (\<lambda>pred. bnd (REG va pred) (FIN va dtx formatted pretty pred)))) s1 = (Inl e, s')"
    obtain va dtx where x: "x = (va, dtx)" by (cases x)
    from deploy_branch_Inr(1)[OF d[unfolded DEP_def x]]
    have e1: "entries s1 = entries s @ ?D" .
    from r1 x have "bnd (format_pub_inputs tk pp)
        (\<lambda>(formatted, pretty). bnd (extract_prediction cfg tk (witness p))
          (\<lambda>pred. bnd (REG va pred) (FIN va dtx formatted pretty pred))) s1 = (Inl e, s')"
      by simp
    then show ?thesis
    proof (rule bnd_InlE)
      assume "format_pub_inputs tk pp s1 = (Inl e, s')"
      from silent_entries[OF silent_format_pub_inputs this] e1
      have "length ?D < length (tail_entries cfg False)
          \<and> entries s' = entries s @ take (length ?D) (tail_entries cfg False)"
        by (simp add: len pre)
      then show ?thesis by blast
    next
      fix y s2
      assume f: "format_pub_inputs tk pp s1 = (Inr y, s2)"
        and r2: "(case y of (formatted, pretty) \<Rightarrow> bnd (extract_prediction cfg tk (witness p))
          (\<lambda>pred. bnd (REG va pred) (FIN va dtx formatted pretty pred))) s2 = (Inl e, s')"
      obtain formatted pretty where y: "y = (formatted, pretty)" by (cases y)
      from silent_entries[OF silent_format_pub_inputs f] e1
      have e2: "entries s2 = entries s @ ?D" by simp
      from r2 y have "bnd (extract_prediction cfg tk (witness p))
          (\<lambda>pred. bnd (REG va pred) (FIN va dtx formatted pretty pred)) s2 = (Inl e, s')"
        by simp
      then show ?thesis
      proof (rule bnd_InlE)
        assume "extract_prediction cfg tk (witness p) s2 = (Inl e, s')"
        from silent_entries[OF silent_extract_prediction this] e2
        have "length ?D < length (tail_entries cfg False)
            \<and> entries s' = entries s @ take (length ?D) (tail_entries cfg False)"
          by (simp add: len pre)
        then show ?thesis by blast
      next
        fix pred s3
        assume ex: "extract_prediction cfg tk (witness p) s2 = (Inr pred, s3)"
          and r3: "bnd (REG va pred) (FIN va dtx formatted pretty pred) s3 = (Inl e, s')"
        from silent_entries[OF silent_extract_prediction ex] e2
        have e3: "entries s3 = entries s @ ?D" by simp
        from r3 show ?thesis
        proof (rule bnd_InlE)
          assume "REG va pred s3 = (Inl e, s')"
          from register_branch_Inl[OF this[unfolded REG_def]] obtain k where
            k: "k \<le> 1" "entries s' = entries s3 @ take k [register_entry (truthy va)]" by blast
          with e3 pre1[OF k(1), of "truthy va"]
          have "length ?D + k < length (tail_entries cfg (truthy va))
              \<and> entries s' = entries s @ take (length ?D + k) (tail_entries cfg (truthy va))"
            by (simp add: len)
          then show ?thesis by blast
        next
          fix reg_tx s4
          assume rg: "REG va pred s3 = (Inr reg_tx, s4)"
            and r4: "FIN va dtx formatted pretty pred reg_tx s4 = (Inl e, s')"
          from register_branch_Inr(1)[OF rg[unfolded REG_def]] e3
          have e4: "entries s4 = entries s @ ?D @ [register_entry (truthy va)]" by simp
          from r4[unfolded FIN_def] have "entries s' = entries s4"
          proof (rule bnd_InlE)
            assume "update_status cfg p ''complete'' ''Pipeline finished'' None s4 = (Inl e, s')"
            then show ?thesis by (rule update_status_Inl(1))
          next
            fix u s5
            assume "ret \<lparr>result_task_id = tid, artifacts = p, pub_inputs_pretty = pretty,
                  pub_inputs = formatted, result_prediction = pred, verification = vr,
                  accuracy = accuracy_of ti (predicted_index pred), verifier_contract = va,
                  verifier_deploy_tx = dtx, tx_hash = reg_tx\<rparr> s5 = (Inl e, s')"
            then show ?thesis by (simp add: ret_def)
          qed
          with e4 pre1[of 1 "truthy va"]
          have "length ?D + 1 < length (tail_entries cfg (truthy va))
              \<and> entries s' = entries s @ take (length ?D + 1) (tail_entries cfg (truthy va))"
            by (simp add: len)
          then show ?thesis by blast
        qed
      qed
    qed
  qed
qed

subsection \<open>Whole runs\<close>

lemma leads_toD:
  assumes "leads_to m L T" and "m s = (r, s')"
  shows "(\<exists>e k. r = Inl e \<and> k \<le> length L \<and> entries s' = entries s @ take k L)
         \<or> (\<exists>c sm. c \<in> T \<and> entries sm = entries s @ L \<and> c sm = (r, s'))"
  using assms unfolding leads_to_def by blast


lemma run_async_Inl:
  assumes run: "run_pipeline_async cfg tk tid stream s = (Inl e, s')"
  shows "\<exists>d k. k < length (run_entries cfg d) \<and> entries s' = entries s @ take k (run_entries cfg d)"
proof -
  have len: "length (run_entries cfg d) = length front_entries + length (tail_entries cfg d)"
    for d by (simp add: run_entries_def)
  have pos: "Suc 0 \<le> length (tail_entries cfg d)" for d by (simp add: tail_entries_def)
  from leads_toD[OF run_pipeline_async_leads run]
  have "(\<exists>k. k \<le> length front_entries \<and> entries s' = entries s @ take k front_entries)
      \<or> (\<exists>pp vr ti sm. entries sm = entries s @ front_entries
            \<and> chain_stages cfg tk tid (paths_of (path_join (APP_ROOT cfg) tid)) pp vr ti sm
                = (Inl e, s'))"
    by blast
  then show ?thesis
  proof
    assume "\<exists>k. k \<le> length front_entries \<and> entries s' = entries s @ take k front_entries"
    then obtain k where k: "k \<le> length front_entries"
      "entries s' = entries s @ take k front_entries" by blast
    from k(1) pos[of False] have "k < length (run_entries cfg False)"
      unfolding len by linarith
    with k have "k < length (run_entries cfg False)
        \<and> entries s' = entries s @ take k (run_entries cfg False)"
      by (simp add: run_entries_def)
    then show ?thesis by blast
  next
    assume "\<exists>pp vr ti sm. entries sm = entries s @ front_entries
            \<and> chain_stages cfg tk tid (paths_of (path_join (APP_ROOT cfg) tid)) pp vr ti sm
                = (Inl e, s')"
    then obtain pp vr ti sm where sm: "entries sm = entries s @ front_entries"
      and cs: "chain_stages cfg tk tid (paths_of (path_join (APP_ROOT cfg) tid)) pp vr ti sm
                = (Inl e, s')" by blast
    from chain_stages_Inl[OF cs] obtain d k where
      k: "k < length (tail_entries cfg d)" "entries s' = entries sm @ take k (tail_entries cfg d)"
      by blast
    with sm have "length front_entries + k < length (run_entries cfg d)
        \<and> entries s' = entries s @ take (length front_entries + k) (run_entries cfg d)"
      by (simp add: len run_entries_def)
    then show ?thesis by blast
  qed
qed


lemma run_pipeline_Inl:
  "run_pipeline_async cfg tk tid stream s = (Inl e, s') \<Longrightarrow>
     run_pipeline cfg tk tid stream s = (Inl (surfaced e), s')"
  by (simp add: run_pipeline_def)

lemma run_pipeline_InlD:
  "run_pipeline cfg tk tid stream s = (Inl e, s') \<Longrightarrow>
     \<exists>e0. run_pipeline_async cfg tk tid stream s = (Inl e0, s') \<and> e = surfaced e0"
  by (auto simp: run_pipeline_def split: prod.splits sum.splits)

lemma post_model_unfold:
  "tid \<noteq> [] \<Longrightarrow>
   post_model cfg tk (Some tid) (Some stream) s =
     (case run_pipeline cfg tk tid stream s of
        (Inr res, s1) \<Rightarrow> (Inr (Response 201 (ResultBody res)), s1)
      | (Inl exc, s1) \<Rightarrow>
          (case task_paths cfg tid s1 of
             (Inl e2, s2) \<Rightarrow> (Inl e2, s2)
           | (Inr p, s2) \<Rightarrow>
               (case update_status cfg p ''failed'' ''Pipeline error'' (Some (msg exc)) s2 of
                  (Inl e3, s3) \<Rightarrow> (Inl e3, s3)
                | (Inr u, s3) \<Rightarrow>
                    (Inr (Response 500 (JsonBody (JObj [(''error'', JStr (msg exc))]))), s3))))"
  by (simp add: post_model_def truthy_def str_of_def bnd_def ret_def
      split: prod.splits sum.splits)

subsection \<open>Runs of the concrete installation\<close>

lemmas run_eval =
  bnd_def ret_def raise_def on_tree_def lift_res_def call_def
  task_paths_def ensure_dir_def makedirs_def paths_of_def path_join_def is_abs_def
  write_file_def read_file_def load_json_def save_json_def update_status_def status_doc_def
  write_node_def read_node_def resolve_def isfile_def node_at_def is_dir_def truthy_def str_of_def
  load_validation_dataframe_def pick_validation_sample_def build_label_index_map_def
  extract_prediction_def accuracy_of_def format_pub_inputs_def dict_get_def argmax_def
  chain_stages_def run_pipeline_async_def deploy_verifier_contract_def
  register_model_onchain_def compile_verifier_bytecode_def ensure_solc_def
  raw_transaction_bytes_def basename_def
  cfg_off_def cfg_chain_def tree0_def state0_def state_faulty_def tk_ok_def tk_fail_def
  put_file_def no_op_def witness_doc_def proof_doc_def frame_ab_def res_off_def res_chain_def
  Let_def



lemma run_fail_eval:
  "fst (run_pipeline_async cfg_off tk_fail ''t1'' (Raw [7]) state0)
     = Inl (Exn ToolkitError ''no such model'')"
  by (simp add: run_eval)

lemma post_fail_eval:
  "fst (post_model cfg_off tk_fail (Some ''t1'') (Some (Raw [7])) state0)
     = Inr (Response 500 (JsonBody (JObj [(''error'', JStr ''no such model'')])))"
  by (simp add: post_model_def run_pipeline_def surfaced_def entries_def run_eval)

lemma run_faulty_eval:
  "fst (run_pipeline_async cfg_off tk_fail ''t1'' (Raw [7]) state_faulty)
     = Inl (Exn ToolkitError ''no such model'')"
  by (simp add: run_eval)

lemma post_faulty_eval:
  "\<exists>s2. post_model cfg_off tk_fail (Some ''t1'') (Some (Raw [7])) state_faulty
          = (Inl (Exn OSError ''[Errno 5] Input/output error: /srv/artifacts/t1/status.json''), s2)
        \<and> entries s2 = [(''started'', ''Storing model'', None),
                         (''input'', ''Preparing validation input'', None),
                         (''settings'', ''Generating settings'', None)]"
  by (simp add: post_model_def run_pipeline_def surfaced_def entries_def run_eval)

lemma pair_of_fst: "fst x = a \<Longrightarrow> x = (a, snd x)"
  by (cases x) simp

lemma surfaced_other: "kind e \<noteq> RuntimeError \<Longrightarrow> surfaced e = e"
  by (simp add: surfaced_def)

section \<open>Chain stages skipped by configuration\<close>



section \<open>Records of skipped stages\<close>




section \<open>Failure of a stage\<close>

text \<open>
  C4, as amended. When the run has failed with an error and the handler stores the failed
  status, an answer of the handler is the response 500 with the message of that error. The
  handler guards neither the resolution of the paths nor the write of the status: an error
  of either leaves the handler in place of the error of the stage, and when the operating
  system refuses the write it is the I/O error that comes out.
\<close>

theorem failed_status_write_unguarded:
  assumes run: "run_pipeline cfg tk tid stream s = (Inl e, s1)" and tid: "tid \<noteq> []"
    and post: "post_model cfg tk (Some tid) (Some stream) s = (out, s2)"
  shows "(\<forall>resp. out = Inr resp \<longrightarrow>
            resp = Response 500 (JsonBody (JObj [(''error'', JStr (msg e))])))
     \<and> (\<forall>e2. out = Inl e2 \<longrightarrow>
            task_paths cfg tid s1 = (Inl e2, s2)
            \<or> (\<exists>p sa. task_paths cfg tid s1 = (Inr p, sa)
                  \<and> update_status cfg p ''failed'' ''Pipeline error'' (Some (msg e)) sa
                      = (Inl e2, s2)))
     \<and> (\<forall>p sa. task_paths cfg tid s1 = (Inr p, sa) \<and> faults sa \<noteq> [] \<and> hd (faults sa) \<longrightarrow>
            out = Inl (Exn OSError (''[Errno 5] Input/output error: '' @ status_file p)))"
proof -
  obtain r1 sa where tp: "task_paths cfg tid s1 = (r1, sa)" by (cases "task_paths cfg tid s1")
  show ?thesis
  proof (cases r1)
    case (Inl e2)
    with post run tp have o: "out = Inl e2" "s2 = sa"
      by (simp_all add: post_model_unfold[OF tid])
    with tp Inl show ?thesis by simp
  next
    case (Inr p)
    obtain r2 sb where us: "update_status cfg p ''failed'' ''Pipeline error'' (Some (msg e)) sa
        = (r2, sb)"
      by (cases "update_status cfg p ''failed'' ''Pipeline error'' (Some (msg e)) sa")
    show ?thesis
    proof (cases r2)
      case (Inl e3)
      with post run tp Inr us have o: "out = Inl e3" "s2 = sb"
        by (simp_all add: post_model_unfold[OF tid])
      from update_status_refused[of sa cfg p "''failed''" "''Pipeline error''" "Some (msg e)"] us Inl
      have "faults sa \<noteq> [] \<and> hd (faults sa) \<longrightarrow>
              e3 = Exn OSError (''[Errno 5] Input/output error: '' @ status_file p)"
        by simp
      with o tp Inr us Inl show ?thesis by simp
    next
      case r: (Inr u)
      with post run tp Inr us
      have o: "out = Inr (Response 500 (JsonBody (JObj [(''error'', JStr (msg e))])))"
        by (simp add: post_model_unfold[OF tid])
      from update_status_refused[of sa cfg p "''failed''" "''Pipeline error''" "Some (msg e)"] us r
      have "\<not> (faults sa \<noteq> [] \<and> hd (faults sa))" by auto
      with o tp Inr show ?thesis by simp
    qed
  qed
qed

theorem failed_status_write_unguarded_witness:
  "fst (run_pipeline cfg_off tk_fail ''t1'' (Raw [7]) state_faulty)
     = Inl (Exn ToolkitError ''no such model'')
   \<and> ''t1'' \<noteq> []
   \<and> fst (post_model cfg_off tk_fail (Some ''t1'') (Some (Raw [7])) state_faulty)
       = Inl (Exn OSError ''[Errno 5] Input/output error: /srv/artifacts/t1/status.json'')"
proof -
  from run_pipeline_Inl[OF pair_of_fst[OF run_faulty_eval]]
  have r: "run_pipeline cfg_off tk_fail ''t1'' (Raw [7]) state_faulty
         = (Inl (Exn ToolkitError ''no such model''),
            snd (run_pipeline_async cfg_off tk_fail ''t1'' (Raw [7]) state_faulty))"
    by (simp add: surfaced_def)
  have t: "''t1'' \<noteq> []" by simp
  from post_faulty_eval obtain s2 where
    p: "post_model cfg_off tk_fail (Some ''t1'') (Some (Raw [7])) state_faulty
          = (Inl (Exn OSError ''[Errno 5] Input/output error: /srv/artifacts/t1/status.json''), s2)"
    by blast
  from failed_status_write_unguarded[OF r t p] r p show ?thesis by simp
qed

text \<open>
  The claim as stated fails: the settings generation fails, the operating system refuses
  the write of the failed status, and the caller gets the I/O error, not the error of the
  stage.
\<close>

theorem failed_status_masked_counterexample:
  "fst (run_pipeline_async cfg_off tk_fail ''t1'' (Raw [7]) state_faulty)
     = Inl (Exn ToolkitError ''no such model'')
   \<and> fst (post_model cfg_off tk_fail (Some ''t1'') (Some (Raw [7])) state_faulty)
       = Inl (Exn OSError ''[Errno 5] Input/output error: /srv/artifacts/t1/status.json'')
   \<and> fst (post_model cfg_off tk_fail (Some ''t1'') (Some (Raw [7])) state_faulty)
       \<noteq> Inl (Exn ToolkitError ''no such model'')"
proof -
  from post_faulty_eval obtain s2 where
    "post_model cfg_off tk_fail (Some ''t1'') (Some (Raw [7])) state_faulty
          = (Inl (Exn OSError ''[Errno 5] Input/output error: /srv/artifacts/t1/status.json''), s2)"
    by blast
  with run_faulty_eval show ?thesis by simp
qed

text \<open>
  C6, as amended. When a stage of a run raises an error, the run ends there: the status
  records it has stored are a proper initial part of the records of a full run, each once
  and in order. If the handler then stores the failed status, it answers 500 with the
  message of the error, the last record has stage \<^verbatim>\<open>failed\<close> and that message as its
  error (the text is empty when the error has none), the status file holds that record,
  and nothing else is created or changed after the failure but missing directories of the
  task's path. The message is that of the error raised, except for a runtime error that
  mentions \<^verbatim>\<open>asyncio.run()\<close>.
\<close>

theorem stage_failure_recorded:
  assumes run: "run_pipeline_async cfg tk tid stream s = (Inl e, s1)" and tid: "tid \<noteq> []"
    and post: "post_model cfg tk (Some tid) (Some stream) s = (Inr resp, s2)"
  shows "resp = Response 500 (JsonBody (JObj [(''error'', JStr (msg (surfaced e)))]))
     \<and> (\<exists>d k. k < length (run_entries cfg d)
           \<and> entries s2 = entries s @ take k (run_entries cfg d)
               @ [(''failed'', ''Pipeline error'', Some (msg (surfaced e)))])
     \<and> (\<exists>q st. fsys s2 q = Some (File (Doc (status_doc st))) \<and> step st = ''failed''
           \<and> error st = Some (msg (surfaced e))
           \<and> (\<forall>l. l \<noteq> q \<longrightarrow> fsys s2 l = fsys s1 l \<or> (fsys s1 l = None \<and> fsys s2 l = Some Dir)))
     \<and> (kind e \<noteq> RuntimeError \<longrightarrow> surfaced e = e)"
proof -
  let ?m = "msg (surfaced e)"
  from run_pipeline_Inl[OF run]
  have r: "run_pipeline cfg tk tid stream s = (Inl (surfaced e), s1)" .
  obtain r1 sa where tp: "task_paths cfg tid s1 = (r1, sa)" by (cases "task_paths cfg tid s1")
  from post r tp obtain p where p: "r1 = Inr p"
    by (cases r1) (simp_all add: post_model_unfold[OF tid])
  obtain r2 sb where us: "update_status cfg p ''failed'' ''Pipeline error'' (Some ?m) sa = (r2, sb)"
    by (cases "update_status cfg p ''failed'' ''Pipeline error'' (Some ?m) sa")
  from post r tp p us obtain u where u: "r2 = Inr u"
    by (cases r2) (simp_all add: post_model_unfold[OF tid])
  from post r tp p us u have resp: "resp = Response 500 (JsonBody (JObj [(''error'', JStr ?m)]))"
    and s2: "s2 = sb" by (simp_all add: post_model_unfold[OF tid])
  from run_async_Inl[OF run] obtain d k where k: "k < length (run_entries cfg d)"
    and e1: "entries s1 = entries s @ take k (run_entries cfg d)" by blast
  from silent_entries[OF silent_task_paths tp] have ea: "entries sa = entries s1" .
  from update_status_Inr(2)[OF us[unfolded u]] ea e1 s2
  have "entries s2 = entries s @ take k (run_entries cfg d)
               @ [(''failed'', ''Pipeline error'', Some ?m)]" by simp
  with k have 2: "\<exists>d k. k < length (run_entries cfg d)
           \<and> entries s2 = entries s @ take k (run_entries cfg d)
               @ [(''failed'', ''Pipeline error'', Some ?m)]" by blast
  from task_paths_frame[OF tp] have ad: "adds_dirs (fsys s1) (fsys sa)" by simp
  let ?st = "\<lparr>step = ''failed'', message = ''Pipeline error'', error = Some ?m,
              timestamp = clock sa\<rparr>"
  from update_status_Inr(3)[OF us[unfolded u]] s2 obtain q where
    q: "fsys s2 = (fsys sa)(q \<mapsto> File (Doc (status_doc ?st)))" by blast
  have "\<forall>l. l \<noteq> q \<longrightarrow> fsys s2 l = fsys s1 l \<or> (fsys s1 l = None \<and> fsys s2 l = Some Dir)"
    using q ad unfolding adds_dirs_def by auto
  with q have "fsys s2 q = Some (File (Doc (status_doc ?st))) \<and> step ?st = ''failed''
           \<and> error ?st = Some ?m
           \<and> (\<forall>l. l \<noteq> q \<longrightarrow> fsys s2 l = fsys s1 l \<or> (fsys s1 l = None \<and> fsys s2 l = Some Dir))"
    by simp
  then have 3: "\<exists>q st. fsys s2 q = Some (File (Doc (status_doc st))) \<and> step st = ''failed''
           \<and> error st = Some ?m
           \<and> (\<forall>l. l \<noteq> q \<longrightarrow> fsys s2 l = fsys s1 l \<or> (fsys s1 l = None \<and> fsys s2 l = Some Dir))"
    by blast
  from resp 2 3 surfaced_other[of e] show ?thesis by blast
qed

theorem stage_failure_recorded_witness:
  "fst (run_pipeline_async cfg_off tk_fail ''t1'' (Raw [7]) state0)
     = Inl (Exn ToolkitError ''no such model'')
   \<and> ''t1'' \<noteq> []
   \<and> fst (post_model cfg_off tk_fail (Some ''t1'') (Some (Raw [7])) state0)
       = Inr (Response 500 (JsonBody (JObj [(''error'', JStr ''no such model'')])))
   \<and> (\<exists>d k. k < length (run_entries cfg_off d)
         \<and> entries (snd (post_model cfg_off tk_fail (Some ''t1'') (Some (Raw [7])) state0))
             = entries state0 @ take k (run_entries cfg_off d)
                 @ [(''failed'', ''Pipeline error'', Some ''no such model'')])"
proof -
  note r = pair_of_fst[OF run_fail_eval]
  have t: "''t1'' \<noteq> []" by simp
  note p = pair_of_fst[OF post_fail_eval]
  have m: "msg (surfaced (Exn ToolkitError ''no such model'')) = ''no such model''"
    by (simp add: surfaced_def)
  from stage_failure_recorded[OF r t p] run_fail_eval post_fail_eval t show ?thesis
    unfolding m by blast
qed

text \<open>
  The claim as stated fails: the settings generation fails and the operating system
  refuses the write of the failed status; no record with stage \<^verbatim>\<open>failed\<close> is stored.
\<close>

theorem stage_failure_unrecorded_counterexample:
  "fst (run_pipeline_async cfg_off tk_fail ''t1'' (Raw [7]) state_faulty)
     = Inl (Exn ToolkitError ''no such model'')
   \<and> entries (snd (post_model cfg_off tk_fail (Some ''t1'') (Some (Raw [7])) state_faulty))
       = [(''started'', ''Storing model'', None),
          (''input'', ''Preparing validation input'', None),
          (''settings'', ''Generating settings'', None)]"
proof -
  from post_faulty_eval obtain s2 where
    "post_model cfg_off tk_fail (Some ''t1'') (Some (Raw [7])) state_faulty
          = (Inl (Exn OSError ''[Errno 5] Input/output error: /srv/artifacts/t1/status.json''), s2)"
    and "entries s2 = [(''started'', ''Storing model'', None),
                         (''input'', ''Preparing validation input'', None),
                         (''settings'', ''Generating settings'', None)]"
    by blast
  with run_faulty_eval show ?thesis by simp
qed


end
